theory Spec2Isabelle
  imports Main "HOL-Library.Sublist"
begin

section \<open>Configuring expo-updates in a bare project: the model\<close>

text \<open>
  A shallow embedding of
  \<^verbatim>\<open>packages/expo-cli/src/commands/eas-build/utils/expoUpdates.ts\<close> (the named
  implementation) and of the parts of its later variant (the unnamed source file) that the
  properties below talk about.

  Files are kept in parsed form: the Gradle script as text, the Android manifest as the
  child nodes of its first \<^verbatim>\<open>application\<close> element, the Xcode project as its shell-script
  build phases, Expo.plist as a dictionary. Parsing a file that the code has just
  serialised is taken to give back the structure that was serialised.

  Every \<^verbatim>\<open>throw\<close> of the source is a branch of the model, and so is reading a property
  of \<^verbatim>\<open>undefined\<close>. Reading and writing an existing file, \<^verbatim>\<open>fs.mkdirp\<close> and
  \<^verbatim>\<open>gitAddAsync\<close> are taken to succeed; the spinner and the log are left out.
\<close>

subsection \<open>Literal constants and the two metadata enums\<close>

definition iOSBuildScript :: string where
  \<open>iOSBuildScript = ''../node_modules/expo-updates/scripts/create-manifest-ios.sh''\<close>

definition androidBuildScript :: string where
  \<open>androidBuildScript =
     ''apply from: "../../node_modules/expo-updates/scripts/create-manifest-android.gradle"''\<close>

datatype metadata_key = SDK_VERSION | RUNTIME_VERSION | UPDATE_URL

fun ExpoAndroidMetadata :: "metadata_key \<Rightarrow> string" where
  "ExpoAndroidMetadata SDK_VERSION = ''expo.modules.updates.EXPO_SDK_VERSION''"
| "ExpoAndroidMetadata RUNTIME_VERSION = ''expo.modules.updates.EXPO_RUNTIME_VERSION''"
| "ExpoAndroidMetadata UPDATE_URL = ''expo.modules.updates.EXPO_UPDATE_URL''"

text \<open>The iOS enum of the named implementation, member by member as the source has it.\<close>

fun ExpoIOSMetadata :: "metadata_key \<Rightarrow> string" where
  "ExpoIOSMetadata SDK_VERSION = ''EXUpdatesRuntimeVersion''"
| "ExpoIOSMetadata RUNTIME_VERSION = ''EXUpdatesSDKVersion''"
| "ExpoIOSMetadata UPDATE_URL = ''EXUpdatesURL''"

subsection \<open>Options, errors, the project on disk\<close>

text \<open>
  \<^verbatim>\<open>ConfigurationOptions\<close> is a union of two object shapes; a field the shape does not have
  reads as \<^verbatim>\<open>undefined\<close>, here \<open>None\<close>.
\<close>

datatype ConfigurationOptions = SdkOptions string string | RuntimeOptions string string

fun sdkVersion :: "ConfigurationOptions \<Rightarrow> string option" where
  "sdkVersion (SdkOptions s u) = Some s"
| "sdkVersion (RuntimeOptions r u) = None"

fun runtimeVersion :: "ConfigurationOptions \<Rightarrow> string option" where
  "runtimeVersion (SdkOptions s u) = None"
| "runtimeVersion (RuntimeOptions r u) = Some r"

fun updateUrl :: "ConfigurationOptions \<Rightarrow> string" where
  "updateUrl (SdkOptions s u) = u"
| "updateUrl (RuntimeOptions r u) = u"

text \<open>\<open>Error\<close> is a \<^verbatim>\<open>new Error(message)\<close> of this module; the other errors are thrown by
  the run time (\<^verbatim>\<open>TypeError\<close>) or by a collaborator.\<close>

datatype error =
    Error string
  | TypeError
  | LoginError
  | ConfigError
  | GitError

text \<open>A child node of the application element: an element with its name and its attributes
  (a map, as an element holds at most one attribute of a name), or a text node.\<close>

datatype node = Element string "string \<rightharpoonup> string" | TextNode string

datatype document = Document "node list option"

record build_phase =
  phaseName :: string
  shellScript :: string

text \<open>The Xcode project: \<^verbatim>\<open>project.hash.project.objects.PBXShellScriptBuildPhase\<close>, the
  build phases of the section in order (its comment entries have no \<^verbatim>\<open>name\<close> and match
  nothing); \<open>None\<close> when the project has no such section.\<close>

datatype xcode_project = XcodeProject "build_phase list option"

datatype plist_value = PString string | PBool bool | PInteger int

type_synonym plist = "string \<rightharpoonup> plist_value"

datatype file_id = BuildGradle | AndroidManifest | Pbxproj | ExpoPlist

text \<open>
  The project directory. \<open>dependencies\<close> are the keys of \<^verbatim>\<open>package.json\<close>'s
  \<^verbatim>\<open>dependencies\<close> (\<open>None\<close>: the field is absent); each file is \<open>None\<close> when it does
  not exist; \<open>pbxproj\<close> is the first match of the glob \<^verbatim>\<open>ios/*/project.pbxproj\<close>.
\<close>

record project =
  dependencies :: "string list option"
  buildGradle :: "string option"
  androidManifest :: "document option"
  pbxproj :: "xcode_project option"
  expoPlist :: "plist option"

datatype git_status = Clean | Dirty | GitFailure

text \<open>The fields of \<^verbatim>\<open>getConfig(projectDir).exp\<close> that the code reads.\<close>

record ExpoConfig =
  slug :: string
  expRuntimeVersion :: "string option"
  expSdkVersion :: "string option"

text \<open>
  What the collaborators answer. \<open>pathJoin\<close> is \<^verbatim>\<open>path.join\<close> of the platform;
  \<open>loggedInUser\<close> is the username of \<^verbatim>\<open>UserManager.ensureLoggedInAsync\<close> (\<open>None\<close>: it
  rejects), \<open>currentUsername\<close> that of \<^verbatim>\<open>UserManager.getCurrentUsernameAsync\<close>
  (\<open>None\<close>: \<^verbatim>\<open>null\<close>); \<open>getConfigThrows\<close> says that \<^verbatim>\<open>getConfig(projectDir)\<close> throws,
  and \<open>exp\<close> is the configuration it answers when it does not; \<open>expoSDKVersion\<close> is the
  result of \<^verbatim>\<open>getExpoSDKVersion(projectDir, exp)\<close> (\<open>None\<close>: it throws); \<open>gitStatus\<close> is
  the outcome of \<^verbatim>\<open>ensureGitStatusIsCleanAsync\<close> and \<open>commitSucceeds\<close> that of
  \<^verbatim>\<open>reviewAndCommitChangesAsync\<close>.
\<close>

record env =
  pathJoin :: "string list \<Rightarrow> string"
  projectDir :: string
  loggedInUser :: "string option"
  currentUsername :: "string option"
  getConfigThrows :: bool
  exp :: ExpoConfig
  expoSDKVersion :: "string option"
  gitStatus :: git_status
  commitSucceeds :: bool

text \<open>\<^verbatim>\<open>fs.writeFile\<close>, one function per file of the project.\<close>

definition writeBuildGradle :: "string \<Rightarrow> project \<Rightarrow> project" where
  "writeBuildGradle content st = st\<lparr>buildGradle := Some content\<rparr>"

definition writeAndroidManifest :: "document \<Rightarrow> project \<Rightarrow> project" where
  "writeAndroidManifest doc st = st\<lparr>androidManifest := Some doc\<rparr>"

definition writePbxproj :: "xcode_project \<Rightarrow> project \<Rightarrow> project" where
  "writePbxproj xcodeProject st = st\<lparr>pbxproj := Some xcodeProject\<rparr>"

definition writeExpoPlist :: "plist \<Rightarrow> project \<Rightarrow> project" where
  "writeExpoPlist items st = st\<lparr>expoPlist := Some items\<rparr>"

text \<open>The value of a string-or-undefined expression when it is truthy.\<close>

fun ifTruthy :: "string option \<Rightarrow> string option" where
  "ifTruthy None = None"
| "ifTruthy (Some s) = (if s = [] then None else Some s)"

subsection \<open>Options resolver and installation gate\<close>

definition configurationErrorMessage :: string where
  \<open>configurationErrorMessage =
     ''Couldn't find either 'runtimeVersion' or 'sdkVersion' to configure 'expo-updates'. Please specify at least one of these properties under the 'expo' key in 'app.json'' @ [CHR 0x27]\<close>

text \<open>Only \<^verbatim>\<open>getExpoSDKVersion\<close> stands in the \<^verbatim>\<open>try\<close>: what the login or
  \<^verbatim>\<open>getConfig\<close> throws leaves the function as it is.\<close>

definition getConfigurationOptions :: "env \<Rightarrow> error + ConfigurationOptions" where
  "getConfigurationOptions e =
     (case loggedInUser e of
        None \<Rightarrow> Inl LoginError
      | Some username \<Rightarrow>
          if getConfigThrows e then Inl ConfigError
          else
            (let url = ''https://exp.host/@'' @ username @ ''/'' @ slug (exp e);
                 fromSdk = (case expoSDKVersion e of
                              Some v \<Rightarrow> Inr (SdkOptions v url)
                            | None \<Rightarrow> Inl (Error configurationErrorMessage))
             in case expRuntimeVersion (exp e) of
                  None \<Rightarrow> fromSdk
                | Some r \<Rightarrow> if r \<noteq> [] then Inr (RuntimeOptions r url) else fromSdk))"

definition isExpoUpdatesInstalled :: "project \<Rightarrow> bool" where
  "isExpoUpdatesInstalled st =
     (case dependencies st of None \<Rightarrow> False | Some deps \<Rightarrow> ''expo-updates'' \<in> set deps)"

subsection \<open>Android: the Gradle build script\<close>

text \<open>The two paths, by the \<^verbatim>\<open>path.join\<close> of the platform.\<close>

definition getAndroidBuildGradlePath :: "(string list \<Rightarrow> string) \<Rightarrow> string \<Rightarrow> string" where
  "getAndroidBuildGradlePath join dir = join [dir, ''android'', ''app'', ''build.gradle'']"

definition getAndroidManifestPath :: "(string list \<Rightarrow> string) \<Rightarrow> string \<Rightarrow> string" where
  "getAndroidManifestPath join dir =
     join [dir, ''android'', ''app'', ''src'', ''main'', ''AndroidManifest.xml'']"

definition getAndroidBuildGradleContent :: "string \<Rightarrow> project \<Rightarrow> error + string" where
  "getAndroidBuildGradleContent buildGradlePath st =
     (case buildGradle st of
        None \<Rightarrow> Inl (Error (''Couldn't find gradle build script at '' @ buildGradlePath))
      | Some content \<Rightarrow> Inr content)"

text \<open>\<^verbatim>\<open>s.split(sep)\<close> for a one-character separator: never empty, one piece more than
  there are separators.\<close>

fun split :: "char \<Rightarrow> string \<Rightarrow> string list" where
  "split sep [] = [[]]"
| "split sep (c # cs) =
     (if c = sep then [] # split sep cs
      else (case split sep cs of
              [] \<Rightarrow> [[c]]
            | l # ls \<Rightarrow> (c # l) # ls))"

text \<open>\<^verbatim>\<open>s.replace(/"/g, "'")\<close>.\<close>

definition replaceDoubleQuotes :: "string \<Rightarrow> string" where
  "replaceDoubleQuotes s = map (\<lambda>c. if c = CHR 0x22 then CHR 0x27 else c) s"

definition hasBuildScriptApply :: "string \<Rightarrow> bool" where
  "hasBuildScriptApply buildGradleContent =
     list_ex (\<lambda>line. line = androidBuildScript \<or> line = replaceDoubleQuotes androidBuildScript)
       (split (CHR 10) buildGradleContent)"

definition gradleIntegrationBlock :: string where
  "gradleIntegrationBlock =
     [CHR 10] @ ''// Integration with Expo updates'' @ [CHR 10] @ androidBuildScript @ [CHR 10]"

subsection \<open>Android: the manifest\<close>

definition getAndroidManifest :: "string \<Rightarrow> project \<Rightarrow> error + document" where
  "getAndroidManifest manifestPath st =
     (case androidManifest st of
        None \<Rightarrow> Inl (Error (''Couldn't find Android manifest at '' @ manifestPath))
      | Some manifestXml \<Rightarrow> Inr manifestXml)"

fun nodeName :: "node \<Rightarrow> string" where
  "nodeName (Element n attrs) = n"
| "nodeName (TextNode t) = ''#text''"

text \<open>xmldom's \<^verbatim>\<open>getAttribute\<close> answers the empty string for an attribute that is not set.
  The code reads and sets attributes of nodes that \<^verbatim>\<open>findAndroidMetadata\<close> found or
  \<^verbatim>\<open>createElement\<close> made, which are elements; the equations for a text node only make the
  functions total.\<close>

fun getAttribute :: "node \<Rightarrow> string \<Rightarrow> string" where
  "getAttribute (Element n attrs) k = (case attrs k of None \<Rightarrow> [] | Some v \<Rightarrow> v)"
| "getAttribute (TextNode t) k = []"

fun setAttribute :: "string \<Rightarrow> string \<Rightarrow> node \<Rightarrow> node" where
  "setAttribute k v (Element n attrs) = Element n (attrs(k \<mapsto> v))"
| "setAttribute k v (TextNode t) = TextNode t"

text \<open>\<^verbatim>\<open>Array.from(node.attributes).some(attr => attr.name === k && attr.value === v)\<close>:
  an element holds at most one attribute of a name. The test stands behind
  \<^verbatim>\<open>node.nodeName === 'meta-data' &&\<close>, so it is never evaluated on a text node.\<close>

fun someAttribute :: "node \<Rightarrow> string \<Rightarrow> string \<Rightarrow> bool" where
  "someAttribute (Element n attrs) k v = (attrs k = Some v)"
| "someAttribute (TextNode t) k v = False"

definition isMetadataNode :: "metadata_key \<Rightarrow> node \<Rightarrow> bool" where
  "isMetadataNode name node =
     (nodeName node = ''meta-data'' \<and>
      someAttribute node ''android:name'' (ExpoAndroidMetadata name))"

text \<open>\<^verbatim>\<open>document.getElementsByTagName('application')[0]\<close>, as its child nodes;
  \<open>None\<close> is \<^verbatim>\<open>undefined\<close>.\<close>

fun getApplication :: "document \<Rightarrow> node list option" where
  "getApplication (Document a) = a"

text \<open>Reading \<^verbatim>\<open>childNodes\<close> of \<^verbatim>\<open>undefined\<close> throws.\<close>

fun findAndroidMetadata :: "node list option \<Rightarrow> metadata_key \<Rightarrow> error + node option" where
  "findAndroidMetadata None name = Inl TypeError"
| "findAndroidMetadata (Some childNodes) name = Inr (List.find (isMetadataNode name) childNodes)"

text \<open>\<^verbatim>\<open>metadata && metadata.getAttribute('android:value') === expected\<close>.\<close>

fun valueIs :: "node option \<Rightarrow> string option \<Rightarrow> bool" where
  "valueIs None expected = False"
| "valueIs (Some metadata) expected = (Some (getAttribute metadata ''android:value'') = expected)"

definition isAndroidMetadataSet :: "document \<Rightarrow> ConfigurationOptions \<Rightarrow> error + bool" where
  "isAndroidMetadataSet doc options =
     (let application = getApplication doc in
      case findAndroidMetadata application SDK_VERSION of
        Inl e \<Rightarrow> Inl e
      | Inr sdkVersionMetadata \<Rightarrow>
     (case findAndroidMetadata application RUNTIME_VERSION of
        Inl e \<Rightarrow> Inl e
      | Inr runtimeVersionMetadata \<Rightarrow>
     (case findAndroidMetadata application UPDATE_URL of
        Inl e \<Rightarrow> Inl e
      | Inr updateUrlMetadata \<Rightarrow>
          Inr ((case ifTruthy (runtimeVersion options) of
                  Some r \<Rightarrow> valueIs runtimeVersionMetadata (Some r)
                | None \<Rightarrow> valueIs sdkVersionMetadata (sdkVersion options)) \<and>
               valueIs updateUrlMetadata (Some (updateUrl options))))))"

text \<open>The first node that satisfies \<open>P\<close>, changed in place, and taken out.\<close>

fun mutateFirst :: "('a \<Rightarrow> bool) \<Rightarrow> ('a \<Rightarrow> 'a) \<Rightarrow> 'a list \<Rightarrow> 'a list" where
  "mutateFirst P f [] = []"
| "mutateFirst P f (x # xs) = (if P x then f x # xs else x # mutateFirst P f xs)"

fun removeFirst :: "('a \<Rightarrow> bool) \<Rightarrow> 'a list \<Rightarrow> 'a list" where
  "removeFirst P [] = []"
| "removeFirst P (x # xs) = (if P x then xs else x # removeFirst P xs)"

definition updateAndroidMetadata :: "document \<Rightarrow> metadata_key \<Rightarrow> string \<Rightarrow> error + document" where
  "updateAndroidMetadata doc name v =
     (let application = getApplication doc in
      case findAndroidMetadata application name of
        Inl e \<Rightarrow> Inl e
      | Inr (Some metadata) \<Rightarrow>
          Inr (Document (map_option
                 (mutateFirst (isMetadataNode name) (setAttribute ''android:value'' v))
                 application))
      | Inr None \<Rightarrow>
          (let it = setAttribute ''android:value'' v
                      (setAttribute ''android:name'' (ExpoAndroidMetadata name)
                         (Element ''meta-data'' Map.empty))
           in Inr (Document (map_option
                 (\<lambda>childNodes. childNodes @ [TextNode ''  '', it, TextNode ([CHR 10] @ ''    '')])
                 application))))"

definition removeAndroidMetadata :: "document \<Rightarrow> metadata_key \<Rightarrow> error + document" where
  "removeAndroidMetadata doc name =
     (let application = getApplication doc in
      case findAndroidMetadata application name of
        Inl e \<Rightarrow> Inl e
      | Inr (Some metadata) \<Rightarrow>
          Inr (Document (map_option (removeFirst (isMetadataNode name)) application))
      | Inr None \<Rightarrow> Inr doc)"

text \<open>The body of \<^verbatim>\<open>if (!isAndroidMetadataSet(manifestXml, options)) { ... }\<close> up to the write.\<close>

definition syncAndroidMetadata :: "document \<Rightarrow> ConfigurationOptions \<Rightarrow> error + document" where
  "syncAndroidMetadata manifestXml options =
     (case (case ifTruthy (runtimeVersion options) of
              Some r \<Rightarrow>
                (case removeAndroidMetadata manifestXml SDK_VERSION of
                   Inl e \<Rightarrow> Inl e
                 | Inr d \<Rightarrow> updateAndroidMetadata d RUNTIME_VERSION r)
            | None \<Rightarrow>
                (case ifTruthy (sdkVersion options) of
                   Some s \<Rightarrow>
                     (case removeAndroidMetadata manifestXml RUNTIME_VERSION of
                        Inl e \<Rightarrow> Inl e
                      | Inr d \<Rightarrow> updateAndroidMetadata d SDK_VERSION s)
                 | None \<Rightarrow> Inr manifestXml)) of
        Inl e \<Rightarrow> Inl e
      | Inr d \<Rightarrow> updateAndroidMetadata d UPDATE_URL (updateUrl options))"

text \<open>
  A stateful function answers the error it threw, if any, the project as it then is on
  disk (a write that happened before a throw stays), and the files it wrote with
  \<^verbatim>\<open>fs.writeFile\<close>, in order.
\<close>

definition configureUpdatesAndroid ::
  "(string list \<Rightarrow> string) \<Rightarrow> string \<Rightarrow> ConfigurationOptions \<Rightarrow> project \<Rightarrow>
     error option \<times> project \<times> file_id list" where
  "configureUpdatesAndroid join dir options st =
     (case getAndroidBuildGradleContent (getAndroidBuildGradlePath join dir) st of
        Inl e \<Rightarrow> (Some e, st, [])
      | Inr buildGradleContent \<Rightarrow>
          (let (st1, w1) =
                 (if \<not> hasBuildScriptApply buildGradleContent
                  then (writeBuildGradle (buildGradleContent @ gradleIntegrationBlock) st,
                        [BuildGradle])
                  else (st, []))
           in case getAndroidManifest (getAndroidManifestPath join dir) st1 of
                Inl e \<Rightarrow> (Some e, st1, w1)
              | Inr manifestXml \<Rightarrow>
                  (case isAndroidMetadataSet manifestXml options of
                     Inl e \<Rightarrow> (Some e, st1, w1)
                   | Inr True \<Rightarrow> (None, st1, w1)
                   | Inr False \<Rightarrow>
                       (case syncAndroidMetadata manifestXml options of
                          Inl e \<Rightarrow> (Some e, st1, w1)
                        | Inr manifestXml' \<Rightarrow>
                            (None, writeAndroidManifest manifestXml' st1,
                             w1 @ [AndroidManifest])))))"

definition isUpdatesConfiguredAndroid ::
  "(string list \<Rightarrow> string) \<Rightarrow> string \<Rightarrow> ConfigurationOptions \<Rightarrow> project \<Rightarrow> error + bool" where
  "isUpdatesConfiguredAndroid join dir options st =
     (case getAndroidBuildGradleContent (getAndroidBuildGradlePath join dir) st of
        Inl e \<Rightarrow> Inl e
      | Inr buildGradleContent \<Rightarrow>
          if \<not> hasBuildScriptApply buildGradleContent then Inr False
          else (case getAndroidManifest (getAndroidManifestPath join dir) st of
                  Inl e \<Rightarrow> Inl e
                | Inr manifestXml \<Rightarrow>
                    (case isAndroidMetadataSet manifestXml options of
                       Inl e \<Rightarrow> Inl e
                     | Inr b \<Rightarrow> if \<not> b then Inr False else Inr True)))"

subsection \<open>iOS: the Xcode project and Expo.plist\<close>

definition bundlePhaseName :: string where
  \<open>bundlePhaseName = ''"Bundle React Native code and images"''\<close>

text \<open>\<^verbatim>\<open>getPbxprojPath\<close> followed by \<^verbatim>\<open>getXcodeProject\<close>: the project behind the first
  match of the glob.\<close>

definition getXcodeProject :: "project \<Rightarrow> error + xcode_project" where
  "getXcodeProject st =
     (case pbxproj st of
        None \<Rightarrow> Inl (Error ''Couldn't find Xcode project'')
      | Some xcodeProject \<Rightarrow> Inr xcodeProject)"

definition isBundlePhase :: "build_phase \<Rightarrow> bool" where
  "isBundlePhase buildPhase = (phaseName buildPhase = bundlePhaseName)"

text \<open>\<^verbatim>\<open>Object.values\<close> of \<^verbatim>\<open>undefined\<close> throws.\<close>

fun getBundleReactNativePhase :: "xcode_project \<Rightarrow> error + build_phase" where
  \<open>getBundleReactNativePhase (XcodeProject None) = Inl TypeError\<close>
| \<open>getBundleReactNativePhase (XcodeProject (Some scriptBuildPhase)) =
     (case List.find isBundlePhase scriptBuildPhase of
        None \<Rightarrow> Inl (Error
          ''Couldn't find a build phase script for "Bundle React Native code and images"'')
      | Some bundleReactNative \<Rightarrow> Inr bundleReactNative)\<close>

text \<open>The phase that \<^verbatim>\<open>find\<close> answered is changed in place.\<close>

fun mapPhases :: "(build_phase list \<Rightarrow> build_phase list) \<Rightarrow> xcode_project \<Rightarrow> xcode_project" where
  "mapPhases f (XcodeProject section) = XcodeProject (map_option f section)"

text \<open>\<^verbatim>\<open>s.includes(sub)\<close>.\<close>

definition includes_str :: "string \<Rightarrow> string \<Rightarrow> bool" where
  "includes_str s sub = sublist sub s"

text \<open>\<^verbatim>\<open>s.replace(/"$/, '')\<close>: without the \<^verbatim>\<open>m\<close> flag, \<^verbatim>\<open>$\<close> is the end of the string.\<close>

definition stripClosingQuote :: "string \<Rightarrow> string" where
  "stripClosingQuote s = (if s \<noteq> [] \<and> last s = CHR 0x22 then butlast s else s)"

text \<open>The template ends in a backslash, the letter n and a double quote.\<close>

definition withBuildScript :: "string \<Rightarrow> string" where
  "withBuildScript script =
     stripClosingQuote script @ iOSBuildScript @ [CHR 0x5C, CHR ''n'', CHR 0x22]"

text \<open>The object literal \<^verbatim>\<open>items\<close>; a key whose value is \<^verbatim>\<open>undefined\<close> reads as an
  absent key.\<close>

definition plistItems :: "ConfigurationOptions \<Rightarrow> plist" where
  "plistItems options =
     (case ifTruthy (runtimeVersion options) of
        Some r \<Rightarrow>
          [ExpoIOSMetadata RUNTIME_VERSION \<mapsto> PString r,
           ExpoIOSMetadata UPDATE_URL \<mapsto> PString (updateUrl options)]
      | None \<Rightarrow>
          (case sdkVersion options of
             Some s \<Rightarrow>
               [ExpoIOSMetadata SDK_VERSION \<mapsto> PString s,
                ExpoIOSMetadata UPDATE_URL \<mapsto> PString (updateUrl options)]
           | None \<Rightarrow> [ExpoIOSMetadata UPDATE_URL \<mapsto> PString (updateUrl options)]))"

definition configureUpdatesIOS ::
  "ConfigurationOptions \<Rightarrow> project \<Rightarrow> error option \<times> project \<times> file_id list" where
  "configureUpdatesIOS options st =
     (case getXcodeProject st of
        Inl e \<Rightarrow> (Some e, st, [])
      | Inr project \<Rightarrow>
          (case getBundleReactNativePhase project of
             Inl e \<Rightarrow> (Some e, st, [])
           | Inr bundleReactNative \<Rightarrow>
               (let project' =
                      (if \<not> includes_str (shellScript bundleReactNative) iOSBuildScript
                       then mapPhases (mutateFirst isBundlePhase
                              (\<lambda>bp. bp\<lparr>shellScript := withBuildScript (shellScript bp)\<rparr>)) project
                       else project);
                    st1 = writePbxproj project' st;
                    st2 = writeExpoPlist (plistItems options) st1
                in (None, st2, [Pbxproj, ExpoPlist]))))"

definition isUpdatesConfiguredIOS :: "ConfigurationOptions \<Rightarrow> project \<Rightarrow> error + bool" where
  "isUpdatesConfiguredIOS options st =
     (case getXcodeProject st of
        Inl e \<Rightarrow> Inl e
      | Inr project \<Rightarrow>
          (case getBundleReactNativePhase project of
             Inl e \<Rightarrow> Inl e
           | Inr bundleReactNative \<Rightarrow>
               if \<not> includes_str (shellScript bundleReactNative) iOSBuildScript then Inr False
               else (case expoPlist st of
                       None \<Rightarrow> Inr False
                     | Some expoPlistData \<Rightarrow>
                         Inr ((case ifTruthy (runtimeVersion options) of
                                 Some r \<Rightarrow>
                                   expoPlistData (ExpoIOSMetadata RUNTIME_VERSION) = Some (PString r)
                               | None \<Rightarrow>
                                   expoPlistData (ExpoIOSMetadata SDK_VERSION) =
                                     map_option PString (sdkVersion options)) \<and>
                              expoPlistData (ExpoIOSMetadata UPDATE_URL) =
                                Some (PString (updateUrl options))))))"

subsection \<open>The two entry points\<close>

definition isUpdatesConfigured :: "env \<Rightarrow> project \<Rightarrow> error + bool" where
  "isUpdatesConfigured e st =
     (if \<not> isExpoUpdatesInstalled st then Inr True
      else (case getConfigurationOptions e of
              Inl err \<Rightarrow> Inl err
            | Inr options \<Rightarrow>
                (case isUpdatesConfiguredAndroid (pathJoin e) (projectDir e) options st of
                   Inl err \<Rightarrow> Inl err
                 | Inr False \<Rightarrow> Inr False
                 | Inr True \<Rightarrow> isUpdatesConfiguredIOS options st)))"

definition abortMessage :: string where
  "abortMessage =
     ''Aborting, run the command again once you're ready. Make sure to commit any changes you've made.''"

text \<open>The git collaborator changes none of the four files.\<close>

definition configureUpdatesAsync :: "env \<Rightarrow> project \<Rightarrow> error option \<times> project \<times> file_id list" where
  "configureUpdatesAsync e st =
     (if \<not> isExpoUpdatesInstalled st then (None, st, [])
      else (case getConfigurationOptions e of
              Inl err \<Rightarrow> (Some err, st, [])
            | Inr options \<Rightarrow>
                (case configureUpdatesAndroid (pathJoin e) (projectDir e) options st of
                   (Some err, st1, w1) \<Rightarrow> (Some err, st1, w1)
                 | (None, st1, w1) \<Rightarrow>
                     (case configureUpdatesIOS options st1 of
                        (Some err, st2, w2) \<Rightarrow> (Some err, st2, w1 @ w2)
                      | (None, st2, w2) \<Rightarrow>
                          (case gitStatus e of
                             Clean \<Rightarrow> (None, st2, w1 @ w2)
                           | Dirty \<Rightarrow>
                               if commitSucceeds e then (None, st2, w1 @ w2)
                               else (Some (Error abortMessage), st2, w1 @ w2)
                           | GitFailure \<Rightarrow> (Some GitError, st2, w1 @ w2))))))"

section \<open>The variant implementation\<close>

text \<open>
  The unnamed source file is a later version of the same module. It leaves the version
  and URL logic to \<^verbatim>\<open>AndroidConfig\<close> and \<^verbatim>\<open>IOSConfig\<close> of \<^verbatim>\<open>@expo/config\<close>, whose
  code is not part of the sources: those functions and constants are parameters of the
  model, and nothing is assumed about them.
\<close>

datatype json = JUndefined | JString string | JArray "json list" | JObject "(string \<times> json) list"

record config_lib =
  androidGetSDKVersion :: "ExpoConfig \<Rightarrow> string option"
  androidGetRuntimeVersion :: "ExpoConfig \<Rightarrow> string option"
  androidGetUpdateUrl :: "ExpoConfig \<Rightarrow> string option \<Rightarrow> string option"
  androidConfig :: "metadata_key \<Rightarrow> string"
  readAndroidManifestAsync :: "string \<Rightarrow> document option \<Rightarrow> error + json"
  iosGetSDKVersion :: "ExpoConfig \<Rightarrow> string option"
  iosGetRuntimeVersion :: "ExpoConfig \<Rightarrow> string option"
  iosGetUpdateUrl :: "ExpoConfig \<Rightarrow> string option \<Rightarrow> string option"
  iosConfig :: "metadata_key \<Rightarrow> string"
  iosSetUpdatesConfig :: "ExpoConfig \<Rightarrow> plist \<Rightarrow> string option \<Rightarrow> plist"

definition getConfigurationOptionsAsync :: "env \<Rightarrow> error + ExpoConfig \<times> string option" where
  "getConfigurationOptionsAsync e =
     (if getConfigThrows e then Inl ConfigError
      else if ifTruthy (expRuntimeVersion (exp e)) = None \<and>
              ifTruthy (expSdkVersion (exp e)) = None
      then Inl (Error configurationErrorMessage)
      else Inr (exp e, currentUsername e))"

text \<open>\<^verbatim>\<open>v[k]\<close> for a key that is neither an index nor \<^verbatim>\<open>length\<close>: reading a property of
  \<^verbatim>\<open>undefined\<close> throws, a string or an array has no such property.\<close>

fun getProp :: "json \<Rightarrow> string \<Rightarrow> error + json" where
  "getProp JUndefined k = Inl TypeError"
| "getProp (JObject kvs) k = Inr (case map_of kvs k of None \<Rightarrow> JUndefined | Some v \<Rightarrow> v)"
| "getProp (JString s) k = Inr JUndefined"
| "getProp (JArray vs) k = Inr JUndefined"

fun hasOwnProperty :: "json \<Rightarrow> string \<Rightarrow> error + bool" where
  "hasOwnProperty JUndefined k = Inl TypeError"
| "hasOwnProperty (JObject kvs) k = Inr (k \<in> fst ` set kvs)"
| "hasOwnProperty (JString s) k = Inr False"
| "hasOwnProperty (JArray vs) k = Inr False"

text \<open>\<^verbatim>\<open>xs.find((e: any) => e['$']['android:name'] === name)\<close>: the element itself is
  what \<^verbatim>\<open>find\<close> answers.\<close>

fun findByAndroidName :: "string \<Rightarrow> json list \<Rightarrow> error + json" where
  "findByAndroidName name [] = Inr JUndefined"
| "findByAndroidName name (e # es) =
     (case getProp e ''$'' of
        Inl err \<Rightarrow> Inl err
      | Inr attrs \<Rightarrow>
          (case getProp attrs ''android:name'' of
             Inl err \<Rightarrow> Inl err
           | Inr n \<Rightarrow> if n = JString name then Inr e else findByAndroidName name es))"

definition getAndroidMetadataValue :: "json \<Rightarrow> string \<Rightarrow> error + json" where
  "getAndroidMetadataValue androidManifestJSON name =
     (case hasOwnProperty androidManifestJSON ''meta-data'' of
        Inl err \<Rightarrow> Inl err
      | Inr False \<Rightarrow> Inr JUndefined
      | Inr True \<Rightarrow>
          (case getProp androidManifestJSON ''meta-data'' of
             Inr (JArray es) \<Rightarrow> findByAndroidName name es
           | _ \<Rightarrow> Inl TypeError))"

definition isMetadataSetAndroid ::
  "config_lib \<Rightarrow> json \<Rightarrow> ExpoConfig \<Rightarrow> string option \<Rightarrow> error + bool" where
  "isMetadataSetAndroid lib androidManifestJSON ex username =
     (let currentSdkVersion = androidGetSDKVersion lib ex;
          currentRuntimeVersion = androidGetRuntimeVersion lib ex;
          currentUpdateUrl = androidGetUpdateUrl lib ex username
      in case getAndroidMetadataValue androidManifestJSON (androidConfig lib RUNTIME_VERSION) of
           Inl err \<Rightarrow> Inl err
         | Inr setRuntimeVersion \<Rightarrow>
        (case getAndroidMetadataValue androidManifestJSON (androidConfig lib SDK_VERSION) of
           Inl err \<Rightarrow> Inl err
         | Inr setSdkVersion \<Rightarrow>
        (case getAndroidMetadataValue androidManifestJSON (androidConfig lib UPDATE_URL) of
           Inl err \<Rightarrow> Inl err
         | Inr setUpdateUrl \<Rightarrow>
             Inr ((case ifTruthy currentRuntimeVersion of
                     Some r \<Rightarrow> setRuntimeVersion = JString r
                   | None \<Rightarrow>
                       (case ifTruthy currentSdkVersion of
                          Some s \<Rightarrow> setSdkVersion = JString s
                        | None \<Rightarrow> False)) \<and>
                  (case ifTruthy currentUpdateUrl of
                     Some u \<Rightarrow> setUpdateUrl = JString u
                   | None \<Rightarrow> False)))))"

definition isUpdatesConfiguredAndroidAsync ::
  "config_lib \<Rightarrow> (string list \<Rightarrow> string) \<Rightarrow> string \<Rightarrow> ExpoConfig \<Rightarrow> string option \<Rightarrow>
     project \<Rightarrow> error + bool" where
  "isUpdatesConfiguredAndroidAsync lib join dir ex username st =
     (case getAndroidBuildGradleContent (getAndroidBuildGradlePath join dir) st of
        Inl err \<Rightarrow> Inl err
      | Inr buildGradleContent \<Rightarrow>
          if \<not> hasBuildScriptApply buildGradleContent then Inr False
          else (case readAndroidManifestAsync lib (getAndroidManifestPath join dir) (androidManifest st) of
                  Inl err \<Rightarrow> Inl err
                | Inr androidManifestJSON \<Rightarrow>
                    (case isMetadataSetAndroid lib androidManifestJSON ex username of
                       Inl err \<Rightarrow> Inl err
                     | Inr b \<Rightarrow> if \<not> b then Inr False else Inr True)))"

definition isMetadataSetIOS :: "config_lib \<Rightarrow> plist \<Rightarrow> ExpoConfig \<Rightarrow> string option \<Rightarrow> bool" where
  "isMetadataSetIOS lib expoPlistData ex username =
     (let currentSdkVersion = iosGetSDKVersion lib ex;
          currentRuntimeVersion = iosGetRuntimeVersion lib ex;
          currentUpdateUrl = iosGetUpdateUrl lib ex username
      in (case ifTruthy currentRuntimeVersion of
            Some r \<Rightarrow> expoPlistData (iosConfig lib RUNTIME_VERSION) = Some (PString r)
          | None \<Rightarrow>
              (case ifTruthy currentSdkVersion of
                 Some s \<Rightarrow> expoPlistData (iosConfig lib SDK_VERSION) = Some (PString s)
               | None \<Rightarrow> False)) \<and>
         (case ifTruthy currentUpdateUrl of
            Some u \<Rightarrow> expoPlistData (iosConfig lib UPDATE_URL) = Some (PString u)
          | None \<Rightarrow> False))"

definition isUpdatesConfiguredIOS_variant ::
  "config_lib \<Rightarrow> ExpoConfig \<Rightarrow> string option \<Rightarrow> project \<Rightarrow> error + bool" where
  "isUpdatesConfiguredIOS_variant lib ex username st =
     (case getXcodeProject st of
        Inl err \<Rightarrow> Inl err
      | Inr project \<Rightarrow>
          (case getBundleReactNativePhase project of
             Inl err \<Rightarrow> Inl err
           | Inr bundleReactNative \<Rightarrow>
               if \<not> includes_str (shellScript bundleReactNative) iOSBuildScript then Inr False
               else (case expoPlist st of
                       None \<Rightarrow> Inr False
                     | Some expoPlistData \<Rightarrow> Inr (isMetadataSetIOS lib expoPlistData ex username))))"

definition isUpdatesConfiguredAsync :: "config_lib \<Rightarrow> env \<Rightarrow> project \<Rightarrow> error + bool" where
  "isUpdatesConfiguredAsync lib e st =
     (if \<not> isExpoUpdatesInstalled st then Inr True
      else (case getConfigurationOptionsAsync e of
              Inl err \<Rightarrow> Inl err
            | Inr (ex, username) \<Rightarrow>
                (case isUpdatesConfiguredAndroidAsync lib (pathJoin e) (projectDir e) ex username st of
                   Inl err \<Rightarrow> Inl err
                 | Inr False \<Rightarrow> Inr False
                 | Inr True \<Rightarrow> isUpdatesConfiguredIOS_variant lib ex username st)))"

definition configureUpdatesIOSAsync ::
  "config_lib \<Rightarrow> ExpoConfig \<Rightarrow> string option \<Rightarrow> project \<Rightarrow>
     error option \<times> project \<times> file_id list" where
  "configureUpdatesIOSAsync lib ex username st =
     (case getXcodeProject st of
        Inl err \<Rightarrow> (Some err, st, [])
      | Inr project \<Rightarrow>
          (case getBundleReactNativePhase project of
             Inl err \<Rightarrow> (Some err, st, [])
           | Inr bundleReactNative \<Rightarrow>
               (let project' =
                      (if \<not> includes_str (shellScript bundleReactNative) iOSBuildScript
                       then mapPhases (mutateFirst isBundlePhase
                              (\<lambda>bp. bp\<lparr>shellScript := withBuildScript (shellScript bp)\<rparr>)) project
                       else project);
                    st1 = writePbxproj project' st;
                    expoPlist0 = (case expoPlist st1 of
                                    None \<Rightarrow> Map.empty
                                  | Some parsed \<Rightarrow> parsed);
                    st2 = writeExpoPlist (iosSetUpdatesConfig lib ex expoPlist0 username) st1
                in (None, st2, [Pbxproj, ExpoPlist]))))"

section \<open>Notions used to state the properties\<close>

text \<open>A version identity is usable when its version string is not empty: the test
  \<^verbatim>\<open>if (options.runtimeVersion) ... else if (options.sdkVersion)\<close> of the code.\<close>

definition validVersion :: "ConfigurationOptions \<Rightarrow> bool" where
  "validVersion options =
     (ifTruthy (runtimeVersion options) \<noteq> None \<or> ifTruthy (sdkVersion options) \<noteq> None)"

text \<open>The \<^verbatim>\<open>android:value\<close> of every \<^verbatim>\<open>meta-data\<close> child of the application element
  that is named \<open>k\<close>, in document order.\<close>

fun metadataValues :: "document option \<Rightarrow> metadata_key \<Rightarrow> string list" where
  "metadataValues (Some (Document (Some ns))) k =
     map (\<lambda>m. getAttribute m ''android:value'') (filter (isMetadataNode k) ns)"
| "metadataValues _ k = []"

text \<open>The value the code reads for \<open>k\<close>: that of the first record.\<close>

definition valueOf :: "node list \<Rightarrow> metadata_key \<Rightarrow> string option" where
  "valueOf ns k = map_option (\<lambda>m. getAttribute m ''android:value'') (List.find (isMetadataNode k) ns)"

text \<open>The element \<^verbatim>\<open>updateAndroidMetadata\<close> creates, and the three functions on the child
  nodes of an application element that exists.\<close>

definition newMetadata :: "metadata_key \<Rightarrow> string \<Rightarrow> node" where
  "newMetadata k v = setAttribute ''android:value'' v
                      (setAttribute ''android:name'' (ExpoAndroidMetadata k)
                         (Element ''meta-data'' Map.empty))"

definition upsert :: "metadata_key \<Rightarrow> string \<Rightarrow> node list \<Rightarrow> node list" where
  "upsert k v ns = (case List.find (isMetadataNode k) ns of
      Some m \<Rightarrow> mutateFirst (isMetadataNode k) (setAttribute ''android:value'' v) ns
    | None \<Rightarrow> ns @ [TextNode ''  '', newMetadata k v, TextNode ([CHR 10] @ ''    '')])"

definition syncList :: "ConfigurationOptions \<Rightarrow> node list \<Rightarrow> node list" where
  "syncList options ns =
     upsert UPDATE_URL (updateUrl options)
       (case ifTruthy (runtimeVersion options) of
          Some r \<Rightarrow> upsert RUNTIME_VERSION r (removeFirst (isMetadataNode SDK_VERSION) ns)
        | None \<Rightarrow>
            (case ifTruthy (sdkVersion options) of
               Some s \<Rightarrow> upsert SDK_VERSION s (removeFirst (isMetadataNode RUNTIME_VERSION) ns)
             | None \<Rightarrow> ns))"

text \<open>A line of a text: a piece between two separators, or between a separator and an end.\<close>

definition isLineOf :: "string \<Rightarrow> string \<Rightarrow> bool" where
  "isLineOf l s =
     (\<exists>pre post. s = pre @ l @ post \<and> (pre = [] \<or> last pre = CHR 10) \<and>
        (post = [] \<or> hd post = CHR 10))"

definition androidBuildScriptSingleQuoted :: string where
  \<open>androidBuildScriptSingleQuoted =
     ''apply from: '../../node_modules/expo-updates/scripts/create-manifest-android.gradle'' @ [CHR 0x27]\<close>

subsection \<open>Sample projects\<close>

text \<open>User alice, slug myapp, runtime version 1.0.0 or SDK version 39.0.0; a project that
  has the dependency and has never been configured.\<close>

definition exampleUrl :: string where
  "exampleUrl = ''https://exp.host/@alice/myapp''"

text \<open>\<^verbatim>\<open>path.posix.join\<close> of Node: the segments that are not empty, joined by a slash,
  then normalised (empty and \<^verbatim>\<open>.\<close> segments dropped, \<^verbatim>\<open>..\<close> resolved, a closing slash
  kept).\<close>

fun joinSlash :: "string list \<Rightarrow> string" where
  "joinSlash [] = []"
| "joinSlash [p] = p"
| "joinSlash (p # ps) = p @ ''/'' @ joinSlash ps"

fun normalizeSegments :: "bool \<Rightarrow> string list \<Rightarrow> string list \<Rightarrow> string list" where
  "normalizeSegments allowAboveRoot res [] = rev res"
| "normalizeSegments allowAboveRoot res (seg # segs) =
     (if seg = [] \<or> seg = ''.'' then normalizeSegments allowAboveRoot res segs
      else if seg = ''..'' then
        (case res of
           [] \<Rightarrow> normalizeSegments allowAboveRoot (if allowAboveRoot then [''..''] else []) segs
         | lastSeg # below \<Rightarrow>
             if lastSeg = ''..''
             then normalizeSegments allowAboveRoot (if allowAboveRoot then ''..'' # res else res) segs
             else normalizeSegments allowAboveRoot below segs)
      else normalizeSegments allowAboveRoot (seg # res) segs)"

definition posixNormalize :: "string \<Rightarrow> string" where
  "posixNormalize path =
     (case path of
        [] \<Rightarrow> ''.''
      | c # cs \<Rightarrow>
          (let isAbsolute = (c = CHR ''/'');
               trailingSeparator = (last path = CHR ''/'');
               p = joinSlash (normalizeSegments (\<not> isAbsolute) [] (split (CHR ''/'') path))
           in if p = [] then (if isAbsolute then ''/'' else if trailingSeparator then ''./'' else ''.'')
              else (if isAbsolute then ''/'' else []) @ p @
                   (if trailingSeparator then ''/'' else [])))"

definition posixJoin :: "string list \<Rightarrow> string" where
  "posixJoin args =
     (case filter (\<lambda>arg. arg \<noteq> []) args of
        [] \<Rightarrow> ''.''
      | parts \<Rightarrow> posixNormalize (joinSlash parts))"

definition runtimeEnv :: env where
  "runtimeEnv = \<lparr>pathJoin = posixJoin, projectDir = ''/app'', loggedInUser = Some ''alice'',
     currentUsername = Some ''alice'', getConfigThrows = False,
     exp = \<lparr>slug = ''myapp'', expRuntimeVersion = Some ''1.0.0'', expSdkVersion = None\<rparr>,
     expoSDKVersion = Some ''39.0.0'', gitStatus = Clean, commitSucceeds = True\<rparr>"

definition sdkEnv :: env where
  "sdkEnv = runtimeEnv\<lparr>exp := \<lparr>slug = ''myapp'', expRuntimeVersion = None,
     expSdkVersion = Some ''39.0.0''\<rparr>\<rparr>"

text \<open>No version identity can be found: the configuration declares none,
  \<^verbatim>\<open>getExpoSDKVersion\<close> finds none, and \<^verbatim>\<open>getConfig\<close> throws.\<close>

definition noVersionEnv :: env where
  "noVersionEnv = runtimeEnv\<lparr>getConfigThrows := True,
     exp := \<lparr>slug = ''myapp'', expRuntimeVersion = None, expSdkVersion = None\<rparr>,
     expoSDKVersion := None\<rparr>"

text \<open>The configuration declares a runtime version and no SDK version can be found:
  \<^verbatim>\<open>getConfig\<close> throws.\<close>

definition runtimeOnlyEnv :: env where
  "runtimeOnlyEnv = runtimeEnv\<lparr>getConfigThrows := True, expoSDKVersion := None\<rparr>"

text \<open>The script of the bundling phase as the pbxproj file quotes it: it ends in a
  backslash, the letter n and the closing double quote.\<close>

definition bareScript :: string where
  \<open>bareScript = ''"react-native-xcode.sh'' @ [CHR 0x5C, CHR ''n'', CHR 0x22]\<close>

definition bareGradle :: string where
  "bareGradle = ''android {}''"

definition bareProject :: project where
  "bareProject = \<lparr>dependencies = Some [''expo-updates''],
     buildGradle = Some bareGradle,
     androidManifest = Some (Document (Some [Element ''activity'' Map.empty])),
     pbxproj = Some (XcodeProject (Some
       [\<lparr>phaseName = bundlePhaseName, shellScript = bareScript\<rparr>])),
     expoPlist = None\<rparr>"

text \<open>The sample project without its Gradle script.\<close>

definition noGradleProject :: project where
  "noGradleProject = bareProject\<lparr>buildGradle := None\<rparr>"

text \<open>The sample project after a first run with the runtime-version identity, and after a
  first run with the SDK-version identity.\<close>

definition configuredProject :: project where
  "configuredProject = fst (snd (configureUpdatesAsync runtimeEnv bareProject))"

definition sdkConfiguredProject :: project where
  "sdkConfiguredProject = fst (snd (configureUpdatesAsync sdkEnv bareProject))"

text \<open>A manifest that holds a record for each of the three keys.\<close>

definition staleManifest :: document where
  "staleManifest = Document (Some
     [Element ''meta-data'' [''android:name'' \<mapsto> ExpoAndroidMetadata SDK_VERSION,
                             ''android:value'' \<mapsto> ''39.0.0''],
      Element ''meta-data'' [''android:name'' \<mapsto> ExpoAndroidMetadata RUNTIME_VERSION,
                             ''android:value'' \<mapsto> ''1.0.0''],
      Element ''meta-data'' [''android:name'' \<mapsto> ExpoAndroidMetadata UPDATE_URL,
                             ''android:value'' \<mapsto> exampleUrl]])"

definition staleProject :: project where
  "staleProject = bareProject\<lparr>androidManifest := Some staleManifest\<rparr>"

text \<open>A project whose Expo.plist holds a key of the user's own.\<close>

definition customPlistProject :: project where
  "customPlistProject =
     bareProject\<lparr>expoPlist := Some [''EXUpdatesCheckOnLaunch'' \<mapsto> PString ''ALWAYS'']\<rparr>"

text \<open>The sample project after \<^verbatim>\<open>configureUpdatesIOS\<close> alone, for each identity.\<close>

definition iosRuntimeProject :: project where
  "iosRuntimeProject = fst (snd (configureUpdatesIOS (RuntimeOptions ''1.0.0'' exampleUrl) bareProject))"

definition iosSdkProject :: project where
  "iosSdkProject = fst (snd (configureUpdatesIOS (SdkOptions ''39.0.0'' exampleUrl) bareProject))"

text \<open>A manifest with two SDK-version records, and the project that holds it.\<close>

definition duplicateManifest :: document where
  "duplicateManifest = Document (Some
     [Element ''meta-data'' [''android:name'' \<mapsto> ExpoAndroidMetadata SDK_VERSION,
                             ''android:value'' \<mapsto> ''37.0.0''],
      Element ''meta-data'' [''android:name'' \<mapsto> ExpoAndroidMetadata SDK_VERSION,
                             ''android:value'' \<mapsto> ''38.0.0'']])"

definition duplicateProject :: project where
  "duplicateProject = bareProject\<lparr>androidManifest := Some duplicateManifest\<rparr>"

text \<open>Each of these two projects after a run with the SDK-version identity, and after the
  run with the runtime-version identity that follows.\<close>

definition staleAfterSdk :: project where
  "staleAfterSdk = fst (snd (configureUpdatesAsync sdkEnv staleProject))"

definition staleAfterRuntime :: project where
  "staleAfterRuntime = fst (snd (configureUpdatesAsync runtimeEnv staleAfterSdk))"

definition duplicateAfterSdk :: project where
  "duplicateAfterSdk = fst (snd (configureUpdatesAsync sdkEnv duplicateProject))"

definition duplicateAfterRuntime :: project where
  "duplicateAfterRuntime = fst (snd (configureUpdatesAsync runtimeEnv duplicateAfterSdk))"

text \<open>The configured sample projects, each configured again with the other identity.\<close>

definition sdkToRuntime :: project where
  "sdkToRuntime = fst (snd (configureUpdatesAsync runtimeEnv sdkConfiguredProject))"

definition runtimeToSdk :: project where
  "runtimeToSdk = fst (snd (configureUpdatesAsync sdkEnv configuredProject))"

text \<open>The project directory written with a closing slash.\<close>

definition slashEnv :: env where
  "slashEnv = runtimeEnv\<lparr>projectDir := ''/app/''\<rparr>"

section \<open>Lemmas\<close>

subsection \<open>Meta-data records of the manifest\<close>

lemma ExpoAndroidMetadata_inj [simp]: "(ExpoAndroidMetadata a = ExpoAndroidMetadata b) = (a = b)"
  by (cases a; cases b) simp_all

lemma isMetadataNode_setValue [simp]:
  "isMetadataNode k (setAttribute ''android:value'' v n) = isMetadataNode k n"
  by (cases n) (simp_all add: isMetadataNode_def)

lemma isMetadataNode_unique: "isMetadataNode k n \<Longrightarrow> isMetadataNode k' n \<Longrightarrow> k = k'"
  by (cases n) (auto simp: isMetadataNode_def)

lemma isMetadataNode_Element:
  "isMetadataNode k (Element n attrs) =
     (n = ''meta-data'' \<and> attrs ''android:name'' = Some (ExpoAndroidMetadata k))"
  by (simp add: isMetadataNode_def)

lemma getAttribute_setValue:
  "isMetadataNode k n \<Longrightarrow> getAttribute (setAttribute ''android:value'' v n) ''android:value'' = v"
  by (cases n) (simp_all add: isMetadataNode_def)

lemma find_mutateFirst_same:
  "(\<And>x. P (f x) = P x) \<Longrightarrow> List.find P (mutateFirst P f xs) = map_option f (List.find P xs)"
  by (induction xs) auto

lemma find_mutateFirst_other:
  "(\<And>x. Q (f x) = Q x) \<Longrightarrow> (\<And>x. P x \<Longrightarrow> \<not> Q x) \<Longrightarrow>
   List.find Q (mutateFirst P f xs) = List.find Q xs"
  by (induction xs) auto

lemma find_removeFirst_other:
  "(\<And>x. P x \<Longrightarrow> \<not> Q x) \<Longrightarrow> List.find Q (removeFirst P xs) = List.find Q xs"
  by (induction xs) auto

lemma find_append_if:
  "List.find P (xs @ ys) = (case List.find P xs of None \<Rightarrow> List.find P ys | Some x \<Rightarrow> Some x)"
  by (induction xs) auto

lemma find_filter_case:
  "List.find P xs = (case filter P xs of [] \<Rightarrow> None | x # _ \<Rightarrow> Some x)"
  by (induction xs) auto

lemma filter_removeFirst_same:
  "length (filter P xs) \<le> 1 \<Longrightarrow> filter P (removeFirst P xs) = []"
  by (induction xs) (auto split: if_splits)

lemma filter_removeFirst_other:
  "(\<And>x. P x \<Longrightarrow> \<not> Q x) \<Longrightarrow> filter Q (removeFirst P xs) = filter Q xs"
  by (induction xs) auto

lemma filter_mutateFirst_other:
  "(\<And>x. Q (f x) = Q x) \<Longrightarrow> (\<And>x. P x \<Longrightarrow> \<not> Q x) \<Longrightarrow>
   filter Q (mutateFirst P f xs) = filter Q xs"
  by (induction xs) auto

lemma isMetadataNode_new [simp]: "isMetadataNode k' (newMetadata k v) = (k' = k)"
  by (auto simp: newMetadata_def isMetadataNode_def)

lemma getAttribute_new [simp]: "getAttribute (newMetadata k v) ''android:value'' = v"
  by (simp add: newMetadata_def)

lemma updateAndroidMetadata_Some:
  "updateAndroidMetadata (Document (Some ns)) k v = Inr (Document (Some (upsert k v ns)))"
  by (simp add: updateAndroidMetadata_def upsert_def newMetadata_def Let_def split: option.splits)

lemma updateAndroidMetadata_None: "updateAndroidMetadata (Document None) k v = Inl TypeError"
  by (simp add: updateAndroidMetadata_def)

lemma removeAndroidMetadata_Some:
  "removeAndroidMetadata (Document (Some ns)) k = Inr (Document (Some (removeFirst (isMetadataNode k) ns)))"
proof -
  have "List.find (isMetadataNode k) ns = None \<Longrightarrow> removeFirst (isMetadataNode k) ns = ns"
    by (induction ns) (auto split: if_splits)
  then show ?thesis
    by (auto simp: removeAndroidMetadata_def Let_def split: option.splits)
qed

lemma valueIs_find: "valueIs (List.find (isMetadataNode k) ns) x = (valueOf ns k \<noteq> None \<and> valueOf ns k = x)"
  by (cases "List.find (isMetadataNode k) ns") (auto simp: valueOf_def)

lemma find_isMeta_text [simp]: "\<not> isMetadataNode k (TextNode t)"
  by (simp add: isMetadataNode_def)

lemma valueOf_upsert: "valueOf (upsert k v ns) k' = (if k' = k then Some v else valueOf ns k')"
proof (cases "List.find (isMetadataNode k) ns")
  case None
  then show ?thesis
    by (auto simp: valueOf_def upsert_def find_append_if split: option.splits)
next
  case (Some m)
  then have m: "isMetadataNode k m" by (auto simp: find_Some_iff)
  show ?thesis
  proof (cases "k' = k")
    case True
    then show ?thesis using Some m
      by (simp add: valueOf_def upsert_def find_mutateFirst_same getAttribute_setValue)
  next
    case False
    have "List.find (isMetadataNode k') (mutateFirst (isMetadataNode k) (setAttribute ''android:value'' v) ns)
          = List.find (isMetadataNode k') ns"
      by (rule find_mutateFirst_other) (use False isMetadataNode_unique in auto)
    then show ?thesis using Some False by (simp add: valueOf_def upsert_def)
  qed
qed

lemma valueOf_values:
  "valueOf ns k = Some v \<Longrightarrow> \<exists>rest. metadataValues (Some (Document (Some ns))) k = v # rest"
  by (auto simp: valueOf_def find_filter_case split: list.splits)

lemma records_upsert_other:
  assumes "k' \<noteq> k"
  shows "filter (isMetadataNode k') (upsert k v ns) = filter (isMetadataNode k') ns"
proof (cases "List.find (isMetadataNode k) ns")
  case None
  then show ?thesis using assms by (simp add: upsert_def)
next
  case (Some m)
  have "filter (isMetadataNode k') (mutateFirst (isMetadataNode k) (setAttribute ''android:value'' v) ns)
        = filter (isMetadataNode k') ns"
    by (rule filter_mutateFirst_other) (use assms isMetadataNode_unique in auto)
  then show ?thesis using Some by (simp add: upsert_def)
qed

lemma records_removeFirst_other:
  assumes "k' \<noteq> k"
  shows "filter (isMetadataNode k') (removeFirst (isMetadataNode k) ns) = filter (isMetadataNode k') ns"
  by (rule filter_removeFirst_other) (use assms isMetadataNode_unique in auto)

lemma isAndroidMetadataSet_Some:
  "isAndroidMetadataSet (Document (Some ns)) options =
     Inr ((case ifTruthy (runtimeVersion options) of
             Some r \<Rightarrow> valueOf ns RUNTIME_VERSION = Some r
           | None \<Rightarrow> valueOf ns SDK_VERSION \<noteq> None \<and> valueOf ns SDK_VERSION = sdkVersion options) \<and>
          valueOf ns UPDATE_URL = Some (updateUrl options))"
  by (auto simp: isAndroidMetadataSet_def valueIs_find Let_def split: option.splits)

lemma isAndroidMetadataSet_None: "isAndroidMetadataSet (Document None) options = Inl TypeError"
  by (simp add: isAndroidMetadataSet_def)

subsection \<open>Synchronising the manifest\<close>

lemma syncAndroidMetadata_Some:
  "syncAndroidMetadata (Document (Some ns)) options = Inr (Document (Some (syncList options ns)))"
  by (simp add: syncAndroidMetadata_def syncList_def removeAndroidMetadata_Some
      updateAndroidMetadata_Some split: option.splits)

lemma isAndroidMetadataSet_syncList:
  "validVersion options \<Longrightarrow>
   isAndroidMetadataSet (Document (Some (syncList options ns))) options = Inr True"
  by (cases options)
     (auto simp: validVersion_def isAndroidMetadataSet_Some syncList_def valueOf_upsert
       split: option.splits if_splits)

lemma setValue_idem: "setAttribute k v (setAttribute k v n) = setAttribute k v n"
  by (cases n) simp_all

lemma mutateFirst_idem:
  "(\<And>x. P (f x) = P x) \<Longrightarrow> (\<And>x. f (f x) = f x) \<Longrightarrow>
   mutateFirst P f (mutateFirst P f xs) = mutateFirst P f xs"
  by (induction xs) auto

lemma mutateFirst_append_None:
  "List.find P xs = None \<Longrightarrow> mutateFirst P f (xs @ ys) = xs @ mutateFirst P f ys"
  by (induction xs) (auto split: if_splits)

lemma find_mutateFirst_None:
  "(\<And>x. P (f x) = P x) \<Longrightarrow> (List.find P (mutateFirst P f xs) = None) = (List.find P xs = None)"
  by (induction xs) auto

lemma upsert_idem: "upsert k v (upsert k v ns) = upsert k v ns"
proof (cases "List.find (isMetadataNode k) ns")
  case None
  have new: "setAttribute ''android:value'' v (newMetadata k v) = newMetadata k v"
    by (simp add: newMetadata_def)
  have "List.find (isMetadataNode k) (ns @ [TextNode ''  '', newMetadata k v, TextNode ([CHR 10] @ ''    '')])
        = Some (newMetadata k v)"
    using None by (simp add: find_append_if)
  then show ?thesis using None
    by (simp add: upsert_def mutateFirst_append_None new)
next
  case (Some m)
  have "List.find (isMetadataNode k) (mutateFirst (isMetadataNode k) (setAttribute ''android:value'' v) ns) \<noteq> None"
    using Some by (simp add: find_mutateFirst_None)
  then show ?thesis using Some
    by (auto simp: upsert_def mutateFirst_idem setValue_idem split: option.splits)
qed

lemma syncList_idem:
  "\<not> validVersion options \<Longrightarrow> syncList options (syncList options ns) = syncList options ns"
  by (auto simp: validVersion_def syncList_def upsert_idem)

subsection \<open>Lines of the Gradle script\<close>

lemma split_nonempty: "split sep s \<noteq> []"
  by (induction s) (auto split: list.splits)

lemma split_append_sep: "split sep (a @ sep # b) = split sep a @ split sep b"
  by (induction a) (auto split: list.splits simp: split_nonempty)

lemma split_no_sep: "sep \<notin> set l \<Longrightarrow> split sep l = [l]"
  by (induction l) (auto split: list.splits)

lemma split_lines_no_sep: "l \<in> set (split sep s) \<Longrightarrow> sep \<notin> set l"
  by (induction s arbitrary: l) (auto split: list.splits if_splits)

lemma split_first:
  "\<exists>x. sep \<notin> set x \<and>
       ((s = x \<and> split sep s = [x]) \<or> (\<exists>rest. s = x @ sep # rest \<and> split sep s = x # split sep rest))"
proof (induction s)
  case Nil
  show ?case by simp
next
  case (Cons c cs)
  show ?case
  proof (cases "c = sep")
    case True
    then show ?thesis by (intro exI[of _ "[]"]) simp
  next
    case False
    from Cons.IH obtain x where x: "sep \<notin> set x"
      "(cs = x \<and> split sep cs = [x]) \<or> (\<exists>rest. cs = x @ sep # rest \<and> split sep cs = x # split sep rest)"
      by blast
    show ?thesis using x False by (intro exI[of _ "c # x"]) auto
  qed
qed

lemma split_mem_decomp:
  "l \<in> set (split sep s) \<Longrightarrow>
   \<exists>pre post. s = pre @ l @ post \<and> (pre = [] \<or> last pre = sep) \<and> (post = [] \<or> hd post = sep)"
proof (induction s arbitrary: l rule: length_induct)
  case (1 s)
  from split_first[of sep s] obtain x where x: "sep \<notin> set x"
    "(s = x \<and> split sep s = [x]) \<or> (\<exists>rest. s = x @ sep # rest \<and> split sep s = x # split sep rest)"
    by blast
  from x(2) show ?case
  proof
    assume a: "s = x \<and> split sep s = [x]"
    then have "split sep s = [s]" using x(1) split_no_sep by blast
    with "1.prems" have "s = l" by simp
    then show ?thesis by (intro exI[of _ "[]"]) simp
  next
    assume "\<exists>rest. s = x @ sep # rest \<and> split sep s = x # split sep rest"
    then obtain rest where r: "s = x @ sep # rest" "split sep s = x # split sep rest" by blast
    with "1.prems" have "l = x \<or> l \<in> set (split sep rest)" by auto
    then show ?thesis
    proof
      assume "l = x"
      then show ?thesis using r(1) by (intro exI[of _ "[]"] exI[of _ "sep # rest"]) simp
    next
      assume m: "l \<in> set (split sep rest)"
      have "length rest < length s" using r(1) by simp
      with "1.IH" m obtain pre post where
        h: "rest = pre @ l @ post" "pre = [] \<or> last pre = sep" "post = [] \<or> hd post = sep"
        by blast
      show ?thesis using h r(1)
        by (intro exI[of _ "x @ sep # pre"] exI[of _ post]) auto
    qed
  qed
qed

lemma split_mem_compose:
  assumes "sep \<notin> set l" "pre = [] \<or> last pre = sep" "post = [] \<or> hd post = sep"
  shows "l \<in> set (split sep (pre @ l @ post))"
proof -
  have post: "l \<in> set (split sep (l @ post))"
  proof (cases post)
    case Nil
    then show ?thesis using assms(1) by (simp add: split_no_sep)
  next
    case (Cons p ps)
    then have "post = sep # ps" using assms(3) by simp
    then show ?thesis using assms(1) by (simp add: split_append_sep split_no_sep)
  qed
  show ?thesis
  proof (cases "pre = []")
    case True
    then show ?thesis using post by simp
  next
    case False
    then obtain p where "pre = p @ [sep]" using assms(2) by (metis append_butlast_last_id)
    then have "pre @ l @ post = p @ sep # (l @ post)" by simp
    then show ?thesis using post by (simp add: split_append_sep)
  qed
qed

lemma split_mem_iff:
  "CHR 10 \<notin> set l \<Longrightarrow> l \<in> set (split (CHR 10) s) \<longleftrightarrow> isLineOf l s"
  unfolding isLineOf_def using split_mem_decomp split_mem_compose by metis

lemma newline_notin_androidBuildScript: "CHR 10 \<notin> set androidBuildScript"
  by (simp add: androidBuildScript_def)

lemma hasBuildScriptApply_block [simp]: "hasBuildScriptApply (c @ gradleIntegrationBlock)"
proof -
  have "c @ gradleIntegrationBlock =
        (c @ [CHR 10] @ ''// Integration with Expo updates'') @ CHR 10 # (androidBuildScript @ CHR 10 # [])"
    by (simp add: gradleIntegrationBlock_def)
  then have "split (CHR 10) (c @ gradleIntegrationBlock) =
        split (CHR 10) (c @ [CHR 10] @ ''// Integration with Expo updates'') @
        split (CHR 10) androidBuildScript @ split (CHR 10) []"
    by (simp only: split_append_sep)
  then have "androidBuildScript \<in> set (split (CHR 10) (c @ gradleIntegrationBlock))"
    by (simp add: split_no_sep[OF newline_notin_androidBuildScript])
  then show ?thesis
    by (auto simp: hasBuildScriptApply_def list_ex_iff)
qed

lemma replaceDoubleQuotes_androidBuildScript:
  "replaceDoubleQuotes androidBuildScript = androidBuildScriptSingleQuoted"
  by (simp add: replaceDoubleQuotes_def androidBuildScript_def androidBuildScriptSingleQuoted_def)

lemma hasBuildScriptApply_lines:
  "hasBuildScriptApply content =
     (isLineOf androidBuildScript content \<or> isLineOf androidBuildScriptSingleQuoted content)"
proof -
  have 1: "CHR 10 \<notin> set androidBuildScript" by (simp add: androidBuildScript_def)
  have 2: "CHR 10 \<notin> set androidBuildScriptSingleQuoted"
    by (simp add: androidBuildScriptSingleQuoted_def)
  show ?thesis
    unfolding hasBuildScriptApply_def list_ex_iff replaceDoubleQuotes_androidBuildScript
    using split_mem_iff[OF 1] split_mem_iff[OF 2] by blast
qed

subsection \<open>The Android patcher\<close>

lemmas android_defs = configureUpdatesAndroid_def getAndroidBuildGradleContent_def
  getAndroidManifest_def writeBuildGradle_def writeAndroidManifest_def

lemma document_cases: obtains "d = Document None" | ns where "d = Document (Some ns)"
  by (cases d) (metis option.exhaust)

lemma android_frame:
  "configureUpdatesAndroid join dir options st = (r, st1, w) \<Longrightarrow>
   pbxproj st1 = pbxproj st \<and> expoPlist st1 = expoPlist st \<and> dependencies st1 = dependencies st"
  by (auto simp: android_defs split: option.splits sum.splits if_splits bool.splits)

lemma android_other_fields:
  "configureUpdatesAndroid join dir options (st\<lparr>pbxproj := p, expoPlist := q\<rparr>) =
     (case configureUpdatesAndroid join dir options st of
        (r, st1, w) \<Rightarrow> (r, st1\<lparr>pbxproj := p, expoPlist := q\<rparr>, w))"
  by (auto simp: android_defs split: option.splits sum.splits if_splits bool.splits)

lemma isUpdatesConfiguredAndroid_fields:
  "buildGradle st' = buildGradle st \<Longrightarrow> androidManifest st' = androidManifest st \<Longrightarrow>
   isUpdatesConfiguredAndroid join dir options st' = isUpdatesConfiguredAndroid join dir options st"
  by (simp add: isUpdatesConfiguredAndroid_def getAndroidBuildGradleContent_def getAndroidManifest_def
      split: option.splits sum.splits)

lemma android_gradle:
  "configureUpdatesAndroid join dir options (st\<lparr>buildGradle := Some content\<rparr>) = (r, st1, w) \<Longrightarrow>
   buildGradle st1 = Some (if hasBuildScriptApply content then content
                           else content @ gradleIntegrationBlock) \<and>
   filter (\<lambda>f. f = BuildGradle) w = (if hasBuildScriptApply content then [] else [BuildGradle])"
  by (auto simp: android_defs split: option.splits sum.splits if_splits bool.splits)

lemma android_configured:
  assumes "configureUpdatesAndroid join dir options st = (None, st1, w)" "validVersion options"
  shows "isUpdatesConfiguredAndroid join dir options st1 = Inr True"
proof -
  from assms(1) obtain c where c: "buildGradle st = Some c"
    by (auto simp: android_defs split: option.splits)
  from assms(1) c obtain d where d: "androidManifest st = Some d"
    by (auto simp: android_defs split: option.splits if_splits)
  from assms(1) c d obtain ns where ns: "d = Document (Some ns)"
    by (cases d rule: document_cases)
       (auto simp: android_defs isAndroidMetadataSet_None split: if_splits)
  have g: "\<exists>c'. buildGradle st1 = Some c' \<and> hasBuildScriptApply c'"
    using assms(1) c d ns
    by (auto simp: android_defs syncAndroidMetadata_Some split: if_splits sum.splits bool.splits)
  have m: "\<exists>d'. androidManifest st1 = Some d' \<and> isAndroidMetadataSet d' options = Inr True"
    using assms c d ns
    by (auto simp: android_defs syncAndroidMetadata_Some isAndroidMetadataSet_syncList
        split: if_splits sum.splits bool.splits)
  show ?thesis using g m
    by (auto simp: isUpdatesConfiguredAndroid_def getAndroidBuildGradleContent_def getAndroidManifest_def)
qed

lemma android_idem:
  assumes "configureUpdatesAndroid join dir options st = (r, st1, w)"
  shows "\<exists>w'. configureUpdatesAndroid join dir options st1 = (r, st1, w')"
proof (cases "buildGradle st")
  case None
  then show ?thesis using assms by (auto simp: android_defs)
next
  case (Some c)
  note c = Some
  show ?thesis
  proof (cases "androidManifest st")
    case None
    then show ?thesis using assms c
      by (auto simp: android_defs split: if_splits)
  next
    case (Some d)
    show ?thesis
    proof (cases d rule: document_cases)
      case 1
      then show ?thesis using assms c Some
        by (auto simp: android_defs isAndroidMetadataSet_None split: if_splits)
    next
      case (2 ns)
      show ?thesis
      proof (cases "validVersion options")
        case True
        then show ?thesis using assms c Some 2
          by (auto simp: android_defs isAndroidMetadataSet_syncList syncAndroidMetadata_Some
              split: if_splits sum.splits bool.splits)
      next
        case False
        then show ?thesis using assms c Some 2
          by (auto simp: android_defs syncList_idem syncAndroidMetadata_Some isAndroidMetadataSet_Some
              split: if_splits sum.splits bool.splits)
      qed
    qed
  qed
qed

subsection \<open>The iOS patcher\<close>

lemmas ios_defs = configureUpdatesIOS_def getXcodeProject_def
  writePbxproj_def writeExpoPlist_def

lemma includes_withBuildScript [simp]: "includes_str (withBuildScript s) iOSBuildScript"
  by (simp add: includes_str_def withBuildScript_def)

lemma isBundlePhase_script [simp]: "isBundlePhase (bp\<lparr>shellScript := s\<rparr>) = isBundlePhase bp"
  by (simp add: isBundlePhase_def)

lemma find_bundle_mutate:
  "List.find isBundlePhase (mutateFirst isBundlePhase (\<lambda>bp. bp\<lparr>shellScript := g (shellScript bp)\<rparr>) phases)
   = map_option (\<lambda>bp. bp\<lparr>shellScript := g (shellScript bp)\<rparr>) (List.find isBundlePhase phases)"
  by (rule find_mutateFirst_same) simp

lemma xcode_project_cases:
  obtains "project = XcodeProject None" | phases where "project = XcodeProject (Some phases)"
  by (cases project) (metis option.exhaust)

lemma bundle_after_mutate:
  assumes "getBundleReactNativePhase project = Inr bp"
  shows "getBundleReactNativePhase
           (mapPhases (mutateFirst isBundlePhase (\<lambda>b. b\<lparr>shellScript := g (shellScript b)\<rparr>)) project) =
         Inr (bp\<lparr>shellScript := g (shellScript bp)\<rparr>)"
  using assms
  by (cases project rule: xcode_project_cases)
     (auto simp: find_bundle_mutate split: option.splits)

lemma plistItems_configured:
  "(case ifTruthy (runtimeVersion options) of
      Some r \<Rightarrow> plistItems options (ExpoIOSMetadata RUNTIME_VERSION) = Some (PString r)
    | None \<Rightarrow> plistItems options (ExpoIOSMetadata SDK_VERSION) = map_option PString (sdkVersion options)) \<and>
   plistItems options (ExpoIOSMetadata UPDATE_URL) = Some (PString (updateUrl options))"
  by (cases options) (auto simp: plistItems_def split: option.splits)

lemma ios_frame:
  "configureUpdatesIOS options st = (r, st2, w) \<Longrightarrow>
   st2 = st\<lparr>pbxproj := pbxproj st2, expoPlist := expoPlist st2\<rparr>"
  by (auto simp: ios_defs Let_def split: option.splits sum.splits)

lemma ios_keeps_android:
  "configureUpdatesIOS options st = (r, st2, w) \<Longrightarrow>
   androidManifest st2 = androidManifest st \<and> buildGradle st2 = buildGradle st"
  by (auto simp: ios_defs Let_def split: option.splits sum.splits)

lemma ios_success:
  assumes "configureUpdatesIOS options st = (None, st2, w)"
  obtains project bp where "pbxproj st = Some project"
    and "getBundleReactNativePhase project = Inr bp"
proof -
  from assms obtain project where p: "pbxproj st = Some project"
    by (auto simp: ios_defs split: option.splits)
  from assms p obtain bp where "getBundleReactNativePhase project = Inr bp"
    by (auto simp: ios_defs split: sum.splits)
  with p that show ?thesis by blast
qed

lemma ios_configured:
  assumes "configureUpdatesIOS options st = (None, st2, w)"
  shows "isUpdatesConfiguredIOS options st2 = Inr True"
proof -
  from assms obtain project bp where p: "pbxproj st = Some project"
    and bp: "getBundleReactNativePhase project = Inr bp"
    by (rule ios_success)
  have e: "expoPlist st2 = Some (plistItems options)"
    using assms p bp by (auto simp: ios_defs Let_def)
  have "\<exists>project' bp'. pbxproj st2 = Some project' \<and>
          getBundleReactNativePhase project' = Inr bp' \<and>
          includes_str (shellScript bp') iOSBuildScript"
    using assms p bp by (auto simp: ios_defs Let_def bundle_after_mutate)
  then show ?thesis using e plistItems_configured[of options]
    by (auto simp: isUpdatesConfiguredIOS_def getXcodeProject_def)
qed

lemma ios_idem:
  assumes "configureUpdatesIOS options st = (r, st2, w)"
  shows "\<exists>w'. configureUpdatesIOS options st2 = (r, st2, w')"
proof (cases "pbxproj st")
  case None
  then show ?thesis using assms by (auto simp: ios_defs)
next
  case (Some project)
  show ?thesis
  proof (cases "getBundleReactNativePhase project")
    case (Inl err)
    then show ?thesis using assms Some by (auto simp: ios_defs)
  next
    case (Inr bp)
    then show ?thesis using assms Some
      by (auto simp: ios_defs Let_def bundle_after_mutate)
  qed
qed

lemma configureUpdatesIOSAsync_reads_prior:
  assumes "pbxproj st = Some project" and "getBundleReactNativePhase project = Inr bp"
  shows "expoPlist (fst (snd (configureUpdatesIOSAsync lib ex username st))) =
           Some (iosSetUpdatesConfig lib ex (case expoPlist st of None \<Rightarrow> Map.empty | Some prior \<Rightarrow> prior)
                   username)"
  using assms
  by (simp add: configureUpdatesIOSAsync_def getXcodeProject_def
      writePbxproj_def writeExpoPlist_def Let_def)

subsection \<open>The entry points\<close>

lemma configured_after_success:
  assumes "isExpoUpdatesInstalled st"
    and "getConfigurationOptions e = Inr options"
    and "validVersion options"
    and "configureUpdatesAsync e st = (None, st', w)"
  shows "isUpdatesConfigured e st' = Inr True"
proof -
  obtain r1 st1 w1 where a: "configureUpdatesAndroid (pathJoin e) (projectDir e) options st = (r1, st1, w1)"
    by (metis prod_cases3)
  obtain r2 st2 w2 where i: "configureUpdatesIOS options st1 = (r2, st2, w2)"
    by (metis prod_cases3)
  have r1: "r1 = None" using assms a
    by (auto simp: configureUpdatesAsync_def split: option.splits)
  have r2: "r2 = None" and st': "st' = st2" using assms a i r1
    by (auto simp: configureUpdatesAsync_def split: option.splits git_status.splits if_splits)
  have fr: "st2 = st1\<lparr>pbxproj := pbxproj st2, expoPlist := expoPlist st2\<rparr>"
    using ios_frame[OF i] .
  have "buildGradle st2 = buildGradle st1" "androidManifest st2 = androidManifest st1"
       "dependencies st2 = dependencies st1"
    by (subst fr, simp)+
  moreover have "dependencies st1 = dependencies st" using android_frame[OF a] by simp
  moreover have "isUpdatesConfiguredAndroid (pathJoin e) (projectDir e) options st1 = Inr True"
    using android_configured a r1 assms(3) by blast
  moreover have "isUpdatesConfiguredIOS options st2 = Inr True"
    using ios_configured i r2 by blast
  ultimately show ?thesis using assms(1,2) st'
    by (simp add: isUpdatesConfigured_def isExpoUpdatesInstalled_def
        isUpdatesConfiguredAndroid_fields[of st2 st1])
qed

subsection \<open>The check of the variant\<close>

lemma findByAndroidName_not_string:
  "findByAndroidName name es = Inr v \<Longrightarrow> v \<noteq> JString s"
proof (induction es)
  case Nil
  then show ?case by auto
next
  case (Cons e es)
  show ?case
  proof (cases e)
    case JUndefined
    then show ?thesis using Cons by simp
  next
    case (JString x)
    then show ?thesis using Cons by simp
  next
    case (JArray x)
    then show ?thesis using Cons by simp
  next
    case (JObject kvs)
    then show ?thesis using Cons
      by (auto split: sum.splits if_splits)
  qed
qed

lemma getAndroidMetadataValue_not_string:
  "getAndroidMetadataValue doc name = Inr v \<Longrightarrow> v \<noteq> JString s"
  using findByAndroidName_not_string
  by (auto simp: getAndroidMetadataValue_def split: sum.splits bool.splits json.splits)

lemma isMetadataSetAndroid_never_true:
  "isMetadataSetAndroid lib doc ex username \<noteq> Inr True"
  using getAndroidMetadataValue_not_string
  by (auto simp: isMetadataSetAndroid_def Let_def split: sum.splits option.splits)

lemma isUpdatesConfiguredAndroidAsync_never_true:
  "isUpdatesConfiguredAndroidAsync lib join dir ex username st \<noteq> Inr True"
  using isMetadataSetAndroid_never_true
  by (auto simp: isUpdatesConfiguredAndroidAsync_def split: sum.splits if_splits)

lemma isUpdatesConfiguredAsync_installed:
  "isExpoUpdatesInstalled st \<Longrightarrow>
   (\<exists>err. isUpdatesConfiguredAsync lib e st = Inl err) \<or> isUpdatesConfiguredAsync lib e st = Inr False"
  using isUpdatesConfiguredAndroidAsync_never_true
  by (auto simp: isUpdatesConfiguredAsync_def split: sum.splits bool.splits prod.splits)

subsection \<open>Two runs in a row\<close>

lemma length_filter_mutateFirst:
  "(\<And>x. P (f x) = P x) \<Longrightarrow> length (filter P (mutateFirst P f xs)) = length (filter P xs)"
  by (induction xs) auto

lemma filter_Nil_find: "(filter P xs = []) = (List.find P xs = None)"
  by (induction xs) auto

lemma records_upsert_same_length:
  "length (filter (isMetadataNode k) (upsert k v ns)) = max 1 (length (filter (isMetadataNode k) ns))"
proof (cases "List.find (isMetadataNode k) ns")
  case None
  then have "filter (isMetadataNode k) ns = []" by (simp add: filter_Nil_find)
  then show ?thesis using None by (simp add: upsert_def)
next
  case (Some m)
  then have "filter (isMetadataNode k) ns \<noteq> []" using filter_Nil_find[of "isMetadataNode k" ns] by simp
  then have "1 \<le> length (filter (isMetadataNode k) ns)" by (cases "filter (isMetadataNode k) ns") auto
  then show ?thesis using Some by (simp add: upsert_def length_filter_mutateFirst)
qed

lemma records_upsert_fresh:
  "filter (isMetadataNode k) ns = [] \<Longrightarrow>
   map (\<lambda>m. getAttribute m ''android:value'') (filter (isMetadataNode k) (upsert k v ns)) = [v]"
  by (simp add: upsert_def filter_Nil_find)

lemma android_success:
  assumes "configureUpdatesAndroid join dir options st = (None, st1, w)"
  obtains ns where "androidManifest st = Some (Document (Some ns))"
    and "androidManifest st1 =
           Some (Document (Some (if isAndroidMetadataSet (Document (Some ns)) options = Inr True
                                 then ns else syncList options ns)))"
proof -
  from assms obtain c where c: "buildGradle st = Some c"
    by (auto simp: android_defs split: option.splits)
  from assms c obtain d where d: "androidManifest st = Some d"
    by (auto simp: android_defs split: option.splits if_splits)
  from assms c d obtain ns where ns: "d = Document (Some ns)"
    by (cases d rule: document_cases)
       (auto simp: android_defs isAndroidMetadataSet_None split: if_splits)
  have "androidManifest st1 =
           Some (Document (Some (if isAndroidMetadataSet (Document (Some ns)) options = Inr True
                                 then ns else syncList options ns)))"
    using assms c d ns
    by (auto simp: android_defs syncAndroidMetadata_Some isAndroidMetadataSet_Some
        split: if_splits sum.splits bool.splits)
  with d ns that show ?thesis by blast
qed

lemma values_single:
  assumes "valueOf ns k = Some v" and "length (filter (isMetadataNode k) ns) \<le> 1"
  shows "map (\<lambda>m. getAttribute m ''android:value'') (filter (isMetadataNode k) ns) = [v]"
proof (cases "filter (isMetadataNode k) ns")
  case Nil
  then show ?thesis using assms(1) by (simp add: valueOf_def find_filter_case)
next
  case (Cons x xs)
  then have "xs = []" using assms(2) by simp
  then show ?thesis using assms(1) Cons by (simp add: valueOf_def find_filter_case)
qed

lemma records_upsert_single:
  assumes "length (filter (isMetadataNode k) ns) \<le> 1"
  shows "map (\<lambda>m. getAttribute m ''android:value'') (filter (isMetadataNode k) (upsert k v ns)) = [v]"
proof (rule values_single)
  show "valueOf (upsert k v ns) k = Some v" by (simp add: valueOf_upsert)
  show "length (filter (isMetadataNode k) (upsert k v ns)) \<le> 1"
    using assms by (simp add: records_upsert_same_length)
qed

text \<open>A successful run of the Android patcher with a usable version \<open>v\<close> of the identity of
  key \<open>a\<close>, on a manifest that holds at most one version record: afterwards the one record
  of \<open>a\<close> has the value \<open>v\<close> and there is none of the other key \<open>b\<close>.\<close>

lemma android_run_result:
  assumes ok: "configureUpdatesAndroid join dir options st = (None, st1, w)"
    and opts: "(options = SdkOptions v u \<and> a = SDK_VERSION \<and> b = RUNTIME_VERSION) \<or>
               (options = RuntimeOptions v u \<and> a = RUNTIME_VERSION \<and> b = SDK_VERSION)"
    and v: "v \<noteq> []"
    and count: "length (metadataValues (androidManifest st) a) +
                length (metadataValues (androidManifest st) b) \<le> 1"
  shows "metadataValues (androidManifest st1) a = [v] \<and>
         metadataValues (androidManifest st1) b = []"
proof -
  from ok obtain ns where m: "androidManifest st = Some (Document (Some ns))"
    and m1: "androidManifest st1 =
           Some (Document (Some (if isAndroidMetadataSet (Document (Some ns)) options = Inr True
                                 then ns else syncList options ns)))"
    by (rule android_success)
  have ab: "a \<noteq> b" "a \<noteq> UPDATE_URL" "b \<noteq> UPDATE_URL" using opts by auto
  have cnt: "length (filter (isMetadataNode a) ns) + length (filter (isMetadataNode b) ns) \<le> 1"
    using count m by simp
  show ?thesis
  proof (cases "isAndroidMetadataSet (Document (Some ns)) options = Inr True")
    case True
    then have va: "valueOf ns a = Some v"
      using opts v by (auto simp: isAndroidMetadataSet_Some split: option.splits)
    then have "filter (isMetadataNode a) ns \<noteq> []"
      by (auto simp: valueOf_def filter_Nil_find)
    then have "1 \<le> length (filter (isMetadataNode a) ns)"
      by (cases "filter (isMetadataNode a) ns") auto
    with cnt have l: "length (filter (isMetadataNode a) ns) \<le> 1 \<and>
                      length (filter (isMetadataNode b) ns) = 0"
      by linarith
    then have "filter (isMetadataNode b) ns = []" by simp
    moreover have "map (\<lambda>m. getAttribute m ''android:value'') (filter (isMetadataNode a) ns) = [v]"
      using va l by (intro values_single) auto
    ultimately show ?thesis using True m1 by simp
  next
    case False
    have sl: "syncList options ns =
                upsert UPDATE_URL u (upsert a v (removeFirst (isMetadataNode b) ns))"
      using opts v by (auto simp: syncList_def)
    have b0: "filter (isMetadataNode b) (removeFirst (isMetadataNode b) ns) = []"
      using cnt by (intro filter_removeFirst_same) simp
    have a1: "length (filter (isMetadataNode a) (removeFirst (isMetadataNode b) ns)) \<le> 1"
      using cnt ab by (simp add: records_removeFirst_other)
    have "filter (isMetadataNode b) (syncList options ns) = []"
      using ab b0 by (simp add: sl records_upsert_other)
    moreover have "map (\<lambda>m. getAttribute m ''android:value'')
                     (filter (isMetadataNode a) (syncList options ns)) = [v]"
      using ab records_upsert_single[OF a1] by (simp add: sl records_upsert_other)
    ultimately show ?thesis using False m1 by simp
  qed
qed

text \<open>Any successful run keeps a manifest with at most one version record that way.\<close>

lemma android_run_total:
  assumes ok: "configureUpdatesAndroid join dir options st = (None, st1, w)"
    and count: "length (metadataValues (androidManifest st) SDK_VERSION) +
                length (metadataValues (androidManifest st) RUNTIME_VERSION) \<le> 1"
  shows "length (metadataValues (androidManifest st1) SDK_VERSION) +
         length (metadataValues (androidManifest st1) RUNTIME_VERSION) \<le> 1"
proof (cases options)
  case (SdkOptions s u)
  show ?thesis
  proof (cases "s = []")
    case False
    have "metadataValues (androidManifest st1) SDK_VERSION = [s] \<and>
          metadataValues (androidManifest st1) RUNTIME_VERSION = []"
      by (rule android_run_result[OF ok _ False]) (use SdkOptions count in auto)
    then show ?thesis by simp
  next
    case True
    from ok obtain ns where m: "androidManifest st = Some (Document (Some ns))"
      and m1: "androidManifest st1 =
           Some (Document (Some (if isAndroidMetadataSet (Document (Some ns)) options = Inr True
                                 then ns else syncList options ns)))"
      by (rule android_success)
    have "syncList options ns = upsert UPDATE_URL u ns"
      using SdkOptions True by (simp add: syncList_def)
    then show ?thesis using count m m1 by (simp add: records_upsert_other)
  qed
next
  case (RuntimeOptions r u)
  show ?thesis
  proof (cases "r = []")
    case False
    have "metadataValues (androidManifest st1) RUNTIME_VERSION = [r] \<and>
          metadataValues (androidManifest st1) SDK_VERSION = []"
      by (rule android_run_result[OF ok _ False]) (use RuntimeOptions count in auto)
    then show ?thesis by simp
  next
    case True
    from ok obtain ns where m: "androidManifest st = Some (Document (Some ns))"
      and m1: "androidManifest st1 =
           Some (Document (Some (if isAndroidMetadataSet (Document (Some ns)) options = Inr True
                                 then ns else syncList options ns)))"
      by (rule android_success)
    have "syncList options ns = upsert UPDATE_URL u ns"
      using RuntimeOptions True by (simp add: syncList_def)
    then show ?thesis using count m m1 by (simp add: records_upsert_other)
  qed
qed

lemma configure_success:
  assumes "isExpoUpdatesInstalled st" and "getConfigurationOptions e = Inr options"
    and "configureUpdatesAsync e st = (None, st', w)"
  obtains sa wa wi where
    "configureUpdatesAndroid (pathJoin e) (projectDir e) options st = (None, sa, wa)"
    and "configureUpdatesIOS options sa = (None, st', wi)"
proof -
  obtain r1 st1 w1 where a: "configureUpdatesAndroid (pathJoin e) (projectDir e) options st = (r1, st1, w1)"
    by (metis prod_cases3)
  obtain r2 st2 w2 where i: "configureUpdatesIOS options st1 = (r2, st2, w2)"
    by (metis prod_cases3)
  have r1: "r1 = None" using assms a
    by (auto simp: configureUpdatesAsync_def split: option.splits)
  have "r2 = None" "st' = st2" using assms a i r1
    by (auto simp: configureUpdatesAsync_def split: option.splits git_status.splits if_splits)
  with a i r1 that show ?thesis by blast
qed

lemma runtimeOptions_nonempty:
  "getConfigurationOptions e = Inr (RuntimeOptions r u) \<Longrightarrow> r \<noteq> []"
  by (auto simp: getConfigurationOptions_def Let_def split: option.splits if_splits)

text \<open>Two successful runs of \<^verbatim>\<open>configureUpdatesAsync\<close> in a row, the second with a usable
  version \<open>v\<close> of the identity of key \<open>a\<close>.\<close>

lemma two_runs:
  assumes inst: "isExpoUpdatesInstalled st0"
    and o1: "getConfigurationOptions e1 = Inr options1"
    and o2: "getConfigurationOptions e2 = Inr options2"
    and opts: "(options2 = SdkOptions v u \<and> a = SDK_VERSION \<and> b = RUNTIME_VERSION) \<or>
               (options2 = RuntimeOptions v u \<and> a = RUNTIME_VERSION \<and> b = SDK_VERSION)"
    and v: "v \<noteq> []"
    and count: "length (metadataValues (androidManifest st0) SDK_VERSION) +
                length (metadataValues (androidManifest st0) RUNTIME_VERSION) \<le> 1"
    and run1: "configureUpdatesAsync e1 st0 = (None, st1, w1)"
    and run2: "configureUpdatesAsync e2 st1 = (None, st2, w2)"
  shows "metadataValues (androidManifest st2) a = [v] \<and>
         metadataValues (androidManifest st2) b = []"
proof -
  from inst o1 run1 obtain sa wa wi where
    a1: "configureUpdatesAndroid (pathJoin e1) (projectDir e1) options1 st0 = (None, sa, wa)"
    and i1: "configureUpdatesIOS options1 sa = (None, st1, wi)"
    by (rule configure_success)
  have fr: "st1 = sa\<lparr>pbxproj := pbxproj st1, expoPlist := expoPlist st1\<rparr>"
    using ios_frame[OF i1] .
  have "dependencies st1 = dependencies sa" by (subst fr) simp
  then have inst1: "isExpoUpdatesInstalled st1"
    using inst android_frame[OF a1] by (simp add: isExpoUpdatesInstalled_def)
  from inst1 o2 run2 obtain sb wb wj where
    a2: "configureUpdatesAndroid (pathJoin e2) (projectDir e2) options2 st1 = (None, sb, wb)"
    and i2: "configureUpdatesIOS options2 sb = (None, st2, wj)"
    by (rule configure_success)
  have m1: "androidManifest st1 = androidManifest sa" using ios_keeps_android[OF i1] by simp
  have total1: "length (metadataValues (androidManifest st1) SDK_VERSION) +
                length (metadataValues (androidManifest st1) RUNTIME_VERSION) \<le> 1"
    using android_run_total[OF a1 count] m1 by simp
  have second: "metadataValues (androidManifest sb) a = [v] \<and>
                metadataValues (androidManifest sb) b = []"
    by (rule android_run_result[OF a2 opts v]) (use opts total1 in auto)
  have "androidManifest st2 = androidManifest sb" using ios_keeps_android[OF i2] by simp
  then show ?thesis using second by simp
qed


subsection \<open>The options resolver\<close>

text \<open>What \<^verbatim>\<open>getConfigurationOptions\<close> answers once \<^verbatim>\<open>getConfig\<close> has returned.\<close>

lemma getConfigurationOptions_after_getConfig:
  assumes "loggedInUser e = Some username" and "\<not> getConfigThrows e"
  shows "getConfigurationOptions e =
           (case ifTruthy (expRuntimeVersion (exp e)) of
              Some r \<Rightarrow> Inr (RuntimeOptions r (''https://exp.host/@'' @ username @ ''/'' @ slug (exp e)))
            | None \<Rightarrow>
                (case expoSDKVersion e of
                   Some s \<Rightarrow> Inr (SdkOptions s (''https://exp.host/@'' @ username @ ''/'' @ slug (exp e)))
                 | None \<Rightarrow> Inl (Error configurationErrorMessage)))"
  using assms by (auto simp: getConfigurationOptions_def Let_def split: option.splits)

subsection \<open>Evaluating the sample projects\<close>

lemma bareGradle_no_apply [simp]: "\<not> hasBuildScriptApply bareGradle"
  by (simp add: bareGradle_def hasBuildScriptApply_def androidBuildScript_def
      replaceDoubleQuotes_def)

lemma bareScript_not_included [simp]: "\<not> includes_str bareScript iOSBuildScript"
  by (simp add: includes_str_def bareScript_def iOSBuildScript_def sublist_Cons_right)

lemmas eval_defs = configureUpdatesAsync_def isExpoUpdatesInstalled_def getConfigurationOptions_def
   android_defs ios_defs isAndroidMetadataSet_Some syncAndroidMetadata_Some syncList_def
   upsert_def valueOf_def isMetadataNode_def newMetadata_def isBundlePhase_def bundlePhaseName_def

lemmas sample_defs = runtimeEnv_def sdkEnv_def bareProject_def exampleUrl_def eval_defs
  plistItems_def Let_def

lemma collapse3: "fst x = None \<Longrightarrow> x = (None, fst (snd x), snd (snd x))"
  by (metis prod.collapse)

lemma bareProject_configures: "fst (configureUpdatesAsync runtimeEnv bareProject) = None"
  by (simp add: runtimeEnv_def bareProject_def eval_defs Let_def)

lemma bareProject_ios_succeeds: "fst (configureUpdatesIOS options bareProject) = None"
  by (simp add: bareProject_def ios_defs isBundlePhase_def Let_def)

lemma configuredProject_fields:
  "buildGradle configuredProject = Some (bareGradle @ gradleIntegrationBlock) \<and>
   androidManifest configuredProject =
     Some (Document (Some
       [Element ''activity'' Map.empty,
        TextNode ''  '', newMetadata RUNTIME_VERSION ''1.0.0'', TextNode ([CHR 10] @ ''    ''),
        TextNode ''  '', newMetadata UPDATE_URL exampleUrl, TextNode ([CHR 10] @ ''    '')])) \<and>
   pbxproj configuredProject =
     Some (XcodeProject (Some [\<lparr>phaseName = bundlePhaseName,
            shellScript = withBuildScript bareScript\<rparr>])) \<and>
   expoPlist configuredProject = Some (plistItems (RuntimeOptions ''1.0.0'' exampleUrl)) \<and>
   dependencies configuredProject = Some [''expo-updates'']"
  by (simp add: configuredProject_def sample_defs)

lemma configuredProject_isConfigured: "isUpdatesConfigured runtimeEnv configuredProject = Inr True"
proof -
  have h1: "isExpoUpdatesInstalled bareProject"
    by (simp add: isExpoUpdatesInstalled_def bareProject_def)
  have h2: "getConfigurationOptions runtimeEnv = Inr (RuntimeOptions ''1.0.0'' exampleUrl)"
    by (simp add: getConfigurationOptions_def runtimeEnv_def exampleUrl_def)
  have h3: "validVersion (RuntimeOptions ''1.0.0'' exampleUrl)"
    by (simp add: validVersion_def)
  have h4: "configureUpdatesAsync runtimeEnv bareProject =
              (None, configuredProject, snd (snd (configureUpdatesAsync runtimeEnv bareProject)))"
    using collapse3[OF bareProject_configures] by (simp add: configuredProject_def)
  show ?thesis by (rule configured_after_success[OF h1 h2 h3 h4])
qed

lemma posixJoin_app:
  "posixJoin [''/app'', ''android'', ''app'', ''build.gradle''] = ''/app/android/app/build.gradle''"
  by (simp add: posixJoin_def posixNormalize_def Let_def)

lemma posixJoin_app_slash:
  "posixJoin [''/app/'', ''android'', ''app'', ''build.gradle''] = ''/app/android/app/build.gradle''"
  by (simp add: posixJoin_def posixNormalize_def Let_def)


lemma sample_installed: "isExpoUpdatesInstalled bareProject"
  by (simp add: isExpoUpdatesInstalled_def bareProject_def)

lemma sample_options:
  "getConfigurationOptions runtimeEnv = Inr (RuntimeOptions ''1.0.0'' exampleUrl) \<and>
   getConfigurationOptions sdkEnv = Inr (SdkOptions ''39.0.0'' exampleUrl)"
  by (simp add: getConfigurationOptions_def runtimeEnv_def sdkEnv_def exampleUrl_def)

lemma sample_runs:
  "fst (configureUpdatesAsync sdkEnv bareProject) = None \<and>
   fst (configureUpdatesAsync runtimeEnv sdkConfiguredProject) = None \<and>
   fst (configureUpdatesAsync runtimeEnv bareProject) = None \<and>
   fst (configureUpdatesAsync sdkEnv configuredProject) = None"
  by (simp add: sdkConfiguredProject_def configuredProject_def sample_defs)

section \<open>The properties\<close>

text \<open>
  C1. In a project that declares the expo-updates dependency and whose configuration
  resolves to options with a usable (non-empty) version, a run of
  \<^verbatim>\<open>configureUpdatesAsync\<close> that completes without an error leaves the disk in a state
  on which \<^verbatim>\<open>isUpdatesConfigured\<close> answers true.
\<close>

theorem configure_then_isConfigured:
  assumes "isExpoUpdatesInstalled st"
    and "getConfigurationOptions e = Inr options"
    and "validVersion options"
    and "configureUpdatesAsync e st = (None, st', w)"
  shows "isUpdatesConfigured e st' = Inr True"
  using assms by (rule configured_after_success)

theorem configure_then_isConfigured_witness:
  "isExpoUpdatesInstalled bareProject \<and>
   getConfigurationOptions runtimeEnv = Inr (RuntimeOptions ''1.0.0'' exampleUrl) \<and>
   validVersion (RuntimeOptions ''1.0.0'' exampleUrl) \<and>
   fst (configureUpdatesAsync runtimeEnv bareProject) = None \<and>
   isUpdatesConfigured runtimeEnv (fst (snd (configureUpdatesAsync runtimeEnv bareProject))) = Inr True"
proof -
  have h1: "isExpoUpdatesInstalled bareProject"
    by (simp add: isExpoUpdatesInstalled_def bareProject_def)
  have h2: "getConfigurationOptions runtimeEnv = Inr (RuntimeOptions ''1.0.0'' exampleUrl)"
    by (simp add: getConfigurationOptions_def runtimeEnv_def exampleUrl_def)
  have h3: "validVersion (RuntimeOptions ''1.0.0'' exampleUrl)"
    by (simp add: validVersion_def)
  have h4: "configureUpdatesAsync runtimeEnv bareProject =
              (None, fst (snd (configureUpdatesAsync runtimeEnv bareProject)),
               snd (snd (configureUpdatesAsync runtimeEnv bareProject)))"
    using bareProject_configures by (metis prod.collapse)
  show ?thesis
    using h1 h2 h3 bareProject_configures configure_then_isConfigured[OF h1 h2 h3 h4] by simp
qed

text \<open>
  C2. Running \<^verbatim>\<open>configureUpdatesAsync\<close> a second time, with the same collaborators'
  answers, on the project the first run left behind changes no file: the Gradle script,
  the manifest, the Xcode project and Expo.plist are what the first run left, and the run
  ends as the first did. Nothing is appended or inserted twice.
\<close>

theorem configure_twice:
  "(case configureUpdatesAsync e st of
      (r1, st1, w1) \<Rightarrow> (case configureUpdatesAsync e st1 of (r2, st2, w2) \<Rightarrow> st2 = st1 \<and> r2 = r1))"
proof (cases "isExpoUpdatesInstalled st")
  case False
  then show ?thesis by (simp add: configureUpdatesAsync_def)
next
  case True
  note inst = True
  show ?thesis
  proof (cases "getConfigurationOptions e")
    case (Inl err)
    then show ?thesis using inst by (simp add: configureUpdatesAsync_def)
  next
    case (Inr options)
    obtain r1 st1 w1 where a: "configureUpdatesAndroid (pathJoin e) (projectDir e) options st = (r1, st1, w1)"
      by (metis prod_cases3)
    from android_idem[OF a] obtain w1' where
      a': "configureUpdatesAndroid (pathJoin e) (projectDir e) options st1 = (r1, st1, w1')" by blast
    have d1: "isExpoUpdatesInstalled st1"
      using inst android_frame[OF a] by (simp add: isExpoUpdatesInstalled_def)
    show ?thesis
    proof (cases r1)
      case (Some err)
      then show ?thesis using inst Inr a a' d1 by (simp add: configureUpdatesAsync_def)
    next
      case None
      obtain r2 st2 w2 where i: "configureUpdatesIOS options st1 = (r2, st2, w2)"
        by (metis prod_cases3)
      from ios_idem[OF i] obtain w2' where
        i': "configureUpdatesIOS options st2 = (r2, st2, w2')" by blast
      have fr: "st2 = st1\<lparr>pbxproj := pbxproj st2, expoPlist := expoPlist st2\<rparr>"
        using ios_frame[OF i] .
      have d2: "isExpoUpdatesInstalled st2"
        using d1 by (subst fr) (simp add: isExpoUpdatesInstalled_def)
      have a2: "configureUpdatesAndroid (pathJoin e) (projectDir e) options st2 = (r1, st2, w1')"
        by (subst fr, subst (2) fr) (simp only: android_other_fields a' prod.case)
      have first: "\<exists>r. configureUpdatesAsync e st = (r, st2, w1 @ w2)"
        using inst Inr a i None
        by (auto simp: configureUpdatesAsync_def split: option.splits git_status.splits)
      then obtain r where first': "configureUpdatesAsync e st = (r, st2, w1 @ w2)" by blast
      have "\<exists>w. configureUpdatesAsync e st2 = (r, st2, w)"
        using d2 Inr a2 i' None first' inst a i
        by (auto simp: configureUpdatesAsync_def split: option.splits git_status.splits if_splits)
      then show ?thesis using first' by auto
    qed
  qed
qed

text \<open>
  C3. The sample project's Expo.plist holds the key \<^verbatim>\<open>EXUpdatesCheckOnLaunch\<close>, which is
  none of the three keys the code manages. \<^verbatim>\<open>configureUpdatesIOS\<close> of the named
  implementation succeeds and the file it leaves holds the two keys of the options and
  not that key.
\<close>

theorem configureUpdatesIOS_drops_prior_keys:
  "expoPlist customPlistProject = Some [''EXUpdatesCheckOnLaunch'' \<mapsto> PString ''ALWAYS''] \<and>
   fst (configureUpdatesIOS (SdkOptions ''39.0.0'' exampleUrl) customPlistProject) = None \<and>
   expoPlist (fst (snd (configureUpdatesIOS (SdkOptions ''39.0.0'' exampleUrl) customPlistProject))) =
     Some [''EXUpdatesRuntimeVersion'' \<mapsto> PString ''39.0.0'', ''EXUpdatesURL'' \<mapsto> PString exampleUrl] \<and>
   [''EXUpdatesRuntimeVersion'' \<mapsto> PString ''39.0.0'', ''EXUpdatesURL'' \<mapsto> PString exampleUrl]
     ''EXUpdatesCheckOnLaunch'' = None"
  by (simp add: customPlistProject_def bareProject_def ios_defs isBundlePhase_def plistItems_def Let_def)

text \<open>
  C4, as stated, fails. In the sample project after a first run the script of the bundling
  phase contains the include fragment; a further \<^verbatim>\<open>configureUpdatesIOS\<close> writes the
  pbxproj file all the same.
\<close>

theorem pbxproj_rewritten_when_included:
  "getBundleReactNativePhase (the (pbxproj configuredProject)) =
     Inr \<lparr>phaseName = bundlePhaseName, shellScript = withBuildScript bareScript\<rparr> \<and>
   includes_str (withBuildScript bareScript) iOSBuildScript \<and>
   snd (snd (configureUpdatesIOS (RuntimeOptions ''1.0.0'' exampleUrl) configuredProject)) =
     [Pbxproj, ExpoPlist]"
  using configuredProject_fields
  by (simp add: ios_defs isBundlePhase_def Let_def)

text \<open>
  C4, amended. Whenever \<^verbatim>\<open>configureUpdatesIOS\<close> finds the Xcode project and its bundling
  phase, it writes the pbxproj file, changed or not, and then Expo.plist. When the script of
  the phase already contains the include fragment, the project written is the project
  read: the script text and every other phase are unchanged.
\<close>

theorem pbxproj_always_written:
  assumes "pbxproj st = Some (XcodeProject (Some phases))"
    and "List.find isBundlePhase phases = Some bp"
  shows "snd (snd (configureUpdatesIOS options st)) = [Pbxproj, ExpoPlist] \<and>
         (includes_str (shellScript bp) iOSBuildScript \<longrightarrow>
            pbxproj (fst (snd (configureUpdatesIOS options st))) =
              Some (XcodeProject (Some phases)))"
  using assms by (simp add: ios_defs Let_def)

theorem pbxproj_always_written_witness:
  "pbxproj configuredProject =
     Some (XcodeProject (Some
       [\<lparr>phaseName = bundlePhaseName, shellScript = withBuildScript bareScript\<rparr>])) \<and>
   List.find isBundlePhase [\<lparr>phaseName = bundlePhaseName, shellScript = withBuildScript bareScript\<rparr>] =
     Some \<lparr>phaseName = bundlePhaseName, shellScript = withBuildScript bareScript\<rparr> \<and>
   includes_str (withBuildScript bareScript) iOSBuildScript \<and>
   snd (snd (configureUpdatesIOS (RuntimeOptions ''1.0.0'' exampleUrl) configuredProject)) =
     [Pbxproj, ExpoPlist] \<and>
   pbxproj (fst (snd (configureUpdatesIOS (RuntimeOptions ''1.0.0'' exampleUrl) configuredProject))) =
     Some (XcodeProject (Some
       [\<lparr>phaseName = bundlePhaseName, shellScript = withBuildScript bareScript\<rparr>]))"
proof -
  have h1: "pbxproj configuredProject =
     Some (XcodeProject (Some
       [\<lparr>phaseName = bundlePhaseName, shellScript = withBuildScript bareScript\<rparr>]))"
    using configuredProject_fields by simp
  have h2: "List.find isBundlePhase [\<lparr>phaseName = bundlePhaseName, shellScript = withBuildScript bareScript\<rparr>] =
     Some \<lparr>phaseName = bundlePhaseName, shellScript = withBuildScript bareScript\<rparr>"
    by (simp add: isBundlePhase_def)
  have h3: "includes_str (withBuildScript bareScript) iOSBuildScript" by simp
  show ?thesis
    using h1 h2 h3 pbxproj_always_written[OF h1 h2, of "RuntimeOptions ''1.0.0'' exampleUrl"]
    by simp
qed

text \<open>
  C5, as stated, fails. The first sample manifest holds a record for each key: the run
  with the SDK identity succeeds and the project then counts as configured for it, the run
  with the runtime identity that follows finds the gate \<^verbatim>\<open>isAndroidMetadataSet\<close> true
  and changes nothing, and the SDK-version record is still there. The second sample
  manifest holds two SDK-version records: both runs write the manifest, and since
  \<^verbatim>\<open>removeAndroidMetadata\<close> removes the first record only, the second SDK-version record
  is still there after the run with the runtime identity. After that run Expo.plist has
  nothing under the key \<^verbatim>\<open>EXUpdatesRuntimeVersion\<close>: the runtime version is under
  \<^verbatim>\<open>EXUpdatesSDKVersion\<close>.
\<close>

theorem mode_switch_keeps_stale_record:
  "fst (configureUpdatesAsync sdkEnv staleProject) = None \<and>
   isUpdatesConfigured sdkEnv staleAfterSdk = Inr True \<and>
   fst (configureUpdatesAsync runtimeEnv staleAfterSdk) = None \<and>
   metadataValues (androidManifest staleAfterRuntime) RUNTIME_VERSION = [''1.0.0''] \<and>
   metadataValues (androidManifest staleAfterRuntime) SDK_VERSION = [''39.0.0''] \<and>
   fst (configureUpdatesAsync sdkEnv duplicateProject) = None \<and>
   metadataValues (androidManifest duplicateAfterSdk) SDK_VERSION = [''39.0.0'', ''38.0.0''] \<and>
   isUpdatesConfigured sdkEnv duplicateAfterSdk = Inr True \<and>
   fst (configureUpdatesAsync runtimeEnv duplicateAfterSdk) = None \<and>
   metadataValues (androidManifest duplicateAfterRuntime) RUNTIME_VERSION = [''1.0.0''] \<and>
   metadataValues (androidManifest duplicateAfterRuntime) SDK_VERSION = [''38.0.0''] \<and>
   expoPlist duplicateAfterRuntime =
     Some [''EXUpdatesSDKVersion'' \<mapsto> PString ''1.0.0'', ''EXUpdatesURL'' \<mapsto> PString exampleUrl]"
  by (simp add: staleAfterRuntime_def staleAfterSdk_def staleProject_def staleManifest_def
      duplicateAfterRuntime_def duplicateAfterSdk_def duplicateProject_def duplicateManifest_def
      isUpdatesConfigured_def isUpdatesConfiguredAndroid_def isUpdatesConfiguredIOS_def
      isMetadataNode_Element sample_defs)

text \<open>
  C5, amended, for the Android manifest. Take a project with the dependency whose manifest
  holds at most one version record (of either key). If \<^verbatim>\<open>configureUpdatesAsync\<close>
  succeeds with an SDK-version identity and then succeeds again with a runtime-version
  identity \<open>r\<close>, the manifest holds exactly one runtime-version record, with the value
  \<open>r\<close>, and no SDK-version record. Symmetrically, after a successful run with a
  runtime-version identity and then one with an SDK-version identity \<open>s\<close> that is not the
  empty string, the manifest holds exactly one SDK-version record, with the value \<open>s\<close>,
  and no runtime-version record. Nothing is said of the keys of Expo.plist.
\<close>

theorem mode_switch:
  "(isExpoUpdatesInstalled st0 \<and>
    length (metadataValues (androidManifest st0) SDK_VERSION) +
      length (metadataValues (androidManifest st0) RUNTIME_VERSION) \<le> 1 \<and>
    getConfigurationOptions e1 = Inr (SdkOptions s u1) \<and>
    configureUpdatesAsync e1 st0 = (None, st1, w1) \<and>
    getConfigurationOptions e2 = Inr (RuntimeOptions r u2) \<and>
    configureUpdatesAsync e2 st1 = (None, st2, w2) \<longrightarrow>
      metadataValues (androidManifest st2) RUNTIME_VERSION = [r] \<and>
      metadataValues (androidManifest st2) SDK_VERSION = []) \<and>
   (isExpoUpdatesInstalled st0 \<and>
    length (metadataValues (androidManifest st0) SDK_VERSION) +
      length (metadataValues (androidManifest st0) RUNTIME_VERSION) \<le> 1 \<and>
    getConfigurationOptions e1 = Inr (RuntimeOptions r u1) \<and>
    configureUpdatesAsync e1 st0 = (None, st1, w1) \<and>
    s \<noteq> [] \<and> getConfigurationOptions e2 = Inr (SdkOptions s u2) \<and>
    configureUpdatesAsync e2 st1 = (None, st2, w2) \<longrightarrow>
      metadataValues (androidManifest st2) SDK_VERSION = [s] \<and>
      metadataValues (androidManifest st2) RUNTIME_VERSION = [])"
proof (intro conjI impI)
  assume a: "isExpoUpdatesInstalled st0 \<and>
    length (metadataValues (androidManifest st0) SDK_VERSION) +
      length (metadataValues (androidManifest st0) RUNTIME_VERSION) \<le> 1 \<and>
    getConfigurationOptions e1 = Inr (SdkOptions s u1) \<and>
    configureUpdatesAsync e1 st0 = (None, st1, w1) \<and>
    getConfigurationOptions e2 = Inr (RuntimeOptions r u2) \<and>
    configureUpdatesAsync e2 st1 = (None, st2, w2)"
  then have r: "r \<noteq> []" using runtimeOptions_nonempty by blast
  have res: "metadataValues (androidManifest st2) RUNTIME_VERSION = [r] \<and>
        metadataValues (androidManifest st2) SDK_VERSION = []"
    by (rule two_runs[where ?e1.0 = e1 and ?e2.0 = e2 and ?st0.0 = st0 and ?st1.0 = st1
          and ?options1.0 = "SdkOptions s u1" and ?options2.0 = "RuntimeOptions r u2"
          and v = r and u = u2 and ?w1.0 = w1 and ?w2.0 = w2])
       (use a r in auto)
  show "metadataValues (androidManifest st2) RUNTIME_VERSION = [r]" using res by simp
  show "metadataValues (androidManifest st2) SDK_VERSION = []" using res by simp
next
  assume a: "isExpoUpdatesInstalled st0 \<and>
    length (metadataValues (androidManifest st0) SDK_VERSION) +
      length (metadataValues (androidManifest st0) RUNTIME_VERSION) \<le> 1 \<and>
    getConfigurationOptions e1 = Inr (RuntimeOptions r u1) \<and>
    configureUpdatesAsync e1 st0 = (None, st1, w1) \<and>
    s \<noteq> [] \<and> getConfigurationOptions e2 = Inr (SdkOptions s u2) \<and>
    configureUpdatesAsync e2 st1 = (None, st2, w2)"
  have res: "metadataValues (androidManifest st2) SDK_VERSION = [s] \<and>
        metadataValues (androidManifest st2) RUNTIME_VERSION = []"
    by (rule two_runs[where ?e1.0 = e1 and ?e2.0 = e2 and ?st0.0 = st0 and ?st1.0 = st1
          and ?options1.0 = "RuntimeOptions r u1" and ?options2.0 = "SdkOptions s u2"
          and v = s and u = u2 and ?w1.0 = w1 and ?w2.0 = w2])
       (use a in auto)
  show "metadataValues (androidManifest st2) SDK_VERSION = [s]" using res by simp
  show "metadataValues (androidManifest st2) RUNTIME_VERSION = []" using res by simp
qed

theorem mode_switch_witness:
  "isExpoUpdatesInstalled bareProject \<and>
   length (metadataValues (androidManifest bareProject) SDK_VERSION) +
     length (metadataValues (androidManifest bareProject) RUNTIME_VERSION) \<le> 1 \<and>
   getConfigurationOptions sdkEnv = Inr (SdkOptions ''39.0.0'' exampleUrl) \<and>
   getConfigurationOptions runtimeEnv = Inr (RuntimeOptions ''1.0.0'' exampleUrl) \<and>
   ''39.0.0'' \<noteq> [] \<and>
   fst (configureUpdatesAsync sdkEnv bareProject) = None \<and>
   fst (configureUpdatesAsync runtimeEnv sdkConfiguredProject) = None \<and>
   metadataValues (androidManifest sdkToRuntime) RUNTIME_VERSION = [''1.0.0''] \<and>
   metadataValues (androidManifest sdkToRuntime) SDK_VERSION = [] \<and>
   fst (configureUpdatesAsync runtimeEnv bareProject) = None \<and>
   fst (configureUpdatesAsync sdkEnv configuredProject) = None \<and>
   metadataValues (androidManifest runtimeToSdk) SDK_VERSION = [''39.0.0''] \<and>
   metadataValues (androidManifest runtimeToSdk) RUNTIME_VERSION = []"
proof -
  have count: "length (metadataValues (androidManifest bareProject) SDK_VERSION) +
     length (metadataValues (androidManifest bareProject) RUNTIME_VERSION) \<le> 1"
    by (simp add: bareProject_def isMetadataNode_Element)
  have o1: "getConfigurationOptions sdkEnv = Inr (SdkOptions ''39.0.0'' exampleUrl)"
    and o2: "getConfigurationOptions runtimeEnv = Inr (RuntimeOptions ''1.0.0'' exampleUrl)"
    using sample_options by simp_all
  have a1: "configureUpdatesAsync sdkEnv bareProject =
              (None, sdkConfiguredProject, snd (snd (configureUpdatesAsync sdkEnv bareProject)))"
    using collapse3[of "configureUpdatesAsync sdkEnv bareProject"] sample_runs
    by (simp add: sdkConfiguredProject_def)
  have a2: "configureUpdatesAsync runtimeEnv sdkConfiguredProject =
              (None, sdkToRuntime, snd (snd (configureUpdatesAsync runtimeEnv sdkConfiguredProject)))"
    using collapse3[of "configureUpdatesAsync runtimeEnv sdkConfiguredProject"] sample_runs
    by (simp add: sdkToRuntime_def)
  have b1: "configureUpdatesAsync runtimeEnv bareProject =
              (None, configuredProject, snd (snd (configureUpdatesAsync runtimeEnv bareProject)))"
    using collapse3[of "configureUpdatesAsync runtimeEnv bareProject"] sample_runs
    by (simp add: configuredProject_def)
  have b2: "configureUpdatesAsync sdkEnv configuredProject =
              (None, runtimeToSdk, snd (snd (configureUpdatesAsync sdkEnv configuredProject)))"
    using collapse3[of "configureUpdatesAsync sdkEnv configuredProject"] sample_runs
    by (simp add: runtimeToSdk_def)
  note first = conjunct1[OF mode_switch[where ?st0.0 = bareProject and ?e1.0 = sdkEnv
      and s = "''39.0.0''" and ?u1.0 = exampleUrl and ?st1.0 = sdkConfiguredProject
      and ?e2.0 = runtimeEnv and r = "''1.0.0''" and ?u2.0 = exampleUrl
      and ?st2.0 = sdkToRuntime], rule_format]
  note second = conjunct2[OF mode_switch[where ?st0.0 = bareProject and ?e1.0 = runtimeEnv
      and r = "''1.0.0''" and ?u1.0 = exampleUrl and ?st1.0 = configuredProject
      and ?e2.0 = sdkEnv and s = "''39.0.0''" and ?u2.0 = exampleUrl
      and ?st2.0 = runtimeToSdk], rule_format]
  have c1: "metadataValues (androidManifest sdkToRuntime) RUNTIME_VERSION = [''1.0.0''] \<and>
            metadataValues (androidManifest sdkToRuntime) SDK_VERSION = []"
    using first sample_installed count o1 o2 a1 a2 by blast
  have c2: "metadataValues (androidManifest runtimeToSdk) SDK_VERSION = [''39.0.0''] \<and>
            metadataValues (androidManifest runtimeToSdk) RUNTIME_VERSION = []"
    using second sample_installed count o1 o2 b1 b2 by blast
  show ?thesis using sample_installed count o1 o2 sample_runs c1 c2 by simp
qed

text \<open>
  C6. \<^verbatim>\<open>hasBuildScriptApply\<close> is true exactly when some line of the Gradle script is the
  include line, written with double quotes or with single quotes. Whatever else
  \<^verbatim>\<open>configureUpdatesAndroid\<close> then does or throws, it leaves \<^verbatim>\<open>build.gradle\<close> as it
  was and does not write it when the line is there, and otherwise writes it once: the old
  content, a line break, the comment line and the include line, each ended by a line
  break.
\<close>

theorem hasBuildScriptApply_and_gradle_write:
  "hasBuildScriptApply content =
     (isLineOf androidBuildScript content \<or> isLineOf androidBuildScriptSingleQuoted content) \<and>
   (case configureUpdatesAndroid join dir options (st\<lparr>buildGradle := Some content\<rparr>) of
      (r, st1, w) \<Rightarrow>
        buildGradle st1 =
          Some (if hasBuildScriptApply content then content
                else content @ [CHR 10] @ ''// Integration with Expo updates'' @ [CHR 10] @
                     androidBuildScript @ [CHR 10]) \<and>
        filter (\<lambda>f. f = BuildGradle) w =
          (if hasBuildScriptApply content then [] else [BuildGradle]))"
proof -
  obtain r st1 w where c: "configureUpdatesAndroid join dir options (st\<lparr>buildGradle := Some content\<rparr>) = (r, st1, w)"
    by (metis prod_cases3)
  show ?thesis
    using android_gradle[OF c] c hasBuildScriptApply_lines[of content]
    by (simp add: gradleIntegrationBlock_def)
qed

text \<open>
  C7, as stated, fails: the options are resolved before the Gradle script is looked for.
  At a project without \<^verbatim>\<open>android/app/build.gradle\<close> for which \<^verbatim>\<open>getConfig\<close> throws,
  \<^verbatim>\<open>configureUpdatesAsync\<close> fails with the error of \<^verbatim>\<open>getConfig\<close>, not with the one
  that names the path of the script.
\<close>

theorem missing_gradle_behind_getConfig_error:
  "isExpoUpdatesInstalled noGradleProject \<and> buildGradle noGradleProject = None \<and>
   configureUpdatesAsync noVersionEnv noGradleProject = (Some ConfigError, noGradleProject, [])"
  by (simp add: noGradleProject_def bareProject_def noVersionEnv_def runtimeEnv_def
      isExpoUpdatesInstalled_def configureUpdatesAsync_def getConfigurationOptions_def)

text \<open>
  C7, amended. When the dependency is declared, the options resolve and
  \<^verbatim>\<open>android/app/build.gradle\<close> does not exist, \<^verbatim>\<open>configureUpdatesAsync\<close> fails with
  the error "Couldn't find gradle build script at" followed by the path that
  \<^verbatim>\<open>path.join(projectDir, 'android', 'app', 'build.gradle')\<close> answers; it writes nothing, and
  every file, the iOS ones included, is as it was.
\<close>

theorem missing_gradle_fatal:
  assumes "isExpoUpdatesInstalled st" and "buildGradle st = None"
    and "getConfigurationOptions e = Inr options"
  shows "configureUpdatesAsync e st =
           (Some (Error (''Couldn't find gradle build script at '' @
                         pathJoin e [projectDir e, ''android'', ''app'', ''build.gradle''])),
            st, [])"
  using assms
  by (simp add: configureUpdatesAsync_def android_defs getAndroidBuildGradlePath_def)

theorem missing_gradle_fatal_witness:
  "isExpoUpdatesInstalled noGradleProject \<and> buildGradle noGradleProject = None \<and>
   getConfigurationOptions runtimeEnv = Inr (RuntimeOptions ''1.0.0'' exampleUrl) \<and>
   configureUpdatesAsync runtimeEnv noGradleProject =
     (Some (Error ''Couldn't find gradle build script at /app/android/app/build.gradle''),
      noGradleProject, []) \<and>
   projectDir slashEnv = ''/app/'' \<and>
   getConfigurationOptions slashEnv = Inr (RuntimeOptions ''1.0.0'' exampleUrl) \<and>
   configureUpdatesAsync slashEnv noGradleProject =
     (Some (Error ''Couldn't find gradle build script at /app/android/app/build.gradle''),
      noGradleProject, [])"
proof -
  have h1: "isExpoUpdatesInstalled noGradleProject"
    by (simp add: isExpoUpdatesInstalled_def noGradleProject_def bareProject_def)
  have h2: "buildGradle noGradleProject = None" by (simp add: noGradleProject_def)
  have h3: "getConfigurationOptions runtimeEnv = Inr (RuntimeOptions ''1.0.0'' exampleUrl)"
    using sample_options by simp
  have h4: "getConfigurationOptions slashEnv = Inr (RuntimeOptions ''1.0.0'' exampleUrl)"
    by (simp add: getConfigurationOptions_def slashEnv_def runtimeEnv_def exampleUrl_def)
  have d1: "pathJoin runtimeEnv [projectDir runtimeEnv, ''android'', ''app'', ''build.gradle''] =
              ''/app/android/app/build.gradle''"
    using posixJoin_app by (simp add: runtimeEnv_def)
  have d2: "pathJoin slashEnv [projectDir slashEnv, ''android'', ''app'', ''build.gradle''] =
              ''/app/android/app/build.gradle''"
    using posixJoin_app_slash by (simp add: slashEnv_def runtimeEnv_def)
  have d3: "projectDir slashEnv = ''/app/''" by (simp add: slashEnv_def)
  show ?thesis
    using h1 h2 h3 h4 d3 missing_gradle_fatal[OF h1 h2 h3] missing_gradle_fatal[OF h1 h2 h4]
    unfolding d1 d2 by simp
qed

text \<open>
  C8 fails at two projects of a logged-in user for which no SDK version can be found, so
  that \<^verbatim>\<open>getConfig\<close> throws. At the first the configuration declares no version: the call
  fails with the error of \<^verbatim>\<open>getConfig\<close> and not with the error of lines 120-124, whose
  message names \<^verbatim>\<open>'runtimeVersion'\<close> and \<^verbatim>\<open>'sdkVersion'\<close>. At the second the
  configuration declares the runtime version 1.0.0: the call fails in the same way and
  answers no runtime-version identity.
\<close>

theorem getConfig_throws_first:
  "loggedInUser noVersionEnv = Some ''alice'' \<and>
   ifTruthy (expRuntimeVersion (exp noVersionEnv)) = None \<and>
   expoSDKVersion noVersionEnv = None \<and>
   getConfigurationOptions noVersionEnv = Inl ConfigError \<and>
   getConfigurationOptions noVersionEnv \<noteq> Inl (Error configurationErrorMessage) \<and>
   loggedInUser runtimeOnlyEnv = Some ''alice'' \<and>
   ifTruthy (expRuntimeVersion (exp runtimeOnlyEnv)) = Some ''1.0.0'' \<and>
   getConfigurationOptions runtimeOnlyEnv = Inl ConfigError \<and>
   getConfigurationOptions runtimeOnlyEnv \<noteq> Inr (RuntimeOptions ''1.0.0'' exampleUrl)"
  by (simp add: getConfigurationOptions_def noVersionEnv_def runtimeOnlyEnv_def runtimeEnv_def)

text \<open>
  C9. On the sample project after a first run, with the same runtime version, username and
  slug, the named \<^verbatim>\<open>isUpdatesConfigured\<close> answers true, while the variant
  \<^verbatim>\<open>isUpdatesConfiguredAsync\<close> answers false or throws, whatever the functions of
  \<^verbatim>\<open>@expo/config\<close> answer: \<^verbatim>\<open>getAndroidMetadataValue\<close> hands back the element that
  \<^verbatim>\<open>find\<close> matched (or \<^verbatim>\<open>undefined\<close>), never its value, and \<^verbatim>\<open>isMetadataSetAndroid\<close>
  compares that with \<^verbatim>\<open>===\<close> to a string.
\<close>

theorem implementations_disagree:
  "isUpdatesConfigured runtimeEnv configuredProject = Inr True \<and>
   ((\<exists>err. isUpdatesConfiguredAsync lib runtimeEnv configuredProject = Inl err) \<or>
    isUpdatesConfiguredAsync lib runtimeEnv configuredProject = Inr False)"
proof -
  have "isExpoUpdatesInstalled configuredProject"
    using configuredProject_fields by (simp add: isExpoUpdatesInstalled_def)
  then show ?thesis
    using isUpdatesConfiguredAsync_installed configuredProject_isConfigured by blast
qed

text \<open>
  C10. The iOS enum of the named implementation names \<^verbatim>\<open>EXUpdatesRuntimeVersion\<close> for the
  SDK version and \<^verbatim>\<open>EXUpdatesSDKVersion\<close> for the runtime version. A successful
  \<^verbatim>\<open>configureUpdatesIOS\<close> writes a (non-empty) runtime version under
  \<^verbatim>\<open>EXUpdatesSDKVersion\<close> and an SDK version under \<^verbatim>\<open>EXUpdatesRuntimeVersion\<close>;
  \<^verbatim>\<open>isUpdatesConfiguredIOS\<close> answers true only if it reads the version back under those
  same keys, and it answers true on what \<^verbatim>\<open>configureUpdatesIOS\<close> wrote.
\<close>

theorem ios_keys_swapped_but_consistent:
  "ExpoIOSMetadata SDK_VERSION = ''EXUpdatesRuntimeVersion'' \<and>
   ExpoIOSMetadata RUNTIME_VERSION = ''EXUpdatesSDKVersion'' \<and>
   (r \<noteq> [] \<and> configureUpdatesIOS (RuntimeOptions r u) st = (None, st', w) \<longrightarrow>
      (\<exists>p. expoPlist st' = Some p \<and> p ''EXUpdatesSDKVersion'' = Some (PString r)) \<and>
      isUpdatesConfiguredIOS (RuntimeOptions r u) st' = Inr True) \<and>
   (configureUpdatesIOS (SdkOptions s u) st = (None, st', w) \<longrightarrow>
      (\<exists>p. expoPlist st' = Some p \<and> p ''EXUpdatesRuntimeVersion'' = Some (PString s)) \<and>
      isUpdatesConfiguredIOS (SdkOptions s u) st' = Inr True) \<and>
   (r \<noteq> [] \<and> isUpdatesConfiguredIOS (RuntimeOptions r u) st = Inr True \<longrightarrow>
      (\<exists>p. expoPlist st = Some p \<and> p ''EXUpdatesSDKVersion'' = Some (PString r))) \<and>
   (isUpdatesConfiguredIOS (SdkOptions s u) st = Inr True \<longrightarrow>
      (\<exists>p. expoPlist st = Some p \<and> p ''EXUpdatesRuntimeVersion'' = Some (PString s)))"
proof (intro conjI impI)
  show "ExpoIOSMetadata SDK_VERSION = ''EXUpdatesRuntimeVersion''" by simp
  show "ExpoIOSMetadata RUNTIME_VERSION = ''EXUpdatesSDKVersion''" by simp
next
  assume a: "r \<noteq> [] \<and> configureUpdatesIOS (RuntimeOptions r u) st = (None, st', w)"
  then have "expoPlist st' = Some (plistItems (RuntimeOptions r u))"
    by (auto simp: ios_defs Let_def split: option.splits sum.splits)
  then show "\<exists>p. expoPlist st' = Some p \<and> p ''EXUpdatesSDKVersion'' = Some (PString r)"
    using a by (simp add: plistItems_def)
  show "isUpdatesConfiguredIOS (RuntimeOptions r u) st' = Inr True"
    using a ios_configured by blast
next
  assume a: "configureUpdatesIOS (SdkOptions s u) st = (None, st', w)"
  then have "expoPlist st' = Some (plistItems (SdkOptions s u))"
    by (auto simp: ios_defs Let_def split: option.splits sum.splits)
  then show "\<exists>p. expoPlist st' = Some p \<and> p ''EXUpdatesRuntimeVersion'' = Some (PString s)"
    by (simp add: plistItems_def)
  show "isUpdatesConfiguredIOS (SdkOptions s u) st' = Inr True"
    using a ios_configured by blast
next
  assume "r \<noteq> [] \<and> isUpdatesConfiguredIOS (RuntimeOptions r u) st = Inr True"
  then show "\<exists>p. expoPlist st = Some p \<and> p ''EXUpdatesSDKVersion'' = Some (PString r)"
    by (auto simp: isUpdatesConfiguredIOS_def split: option.splits sum.splits if_splits)
next
  assume "isUpdatesConfiguredIOS (SdkOptions s u) st = Inr True"
  then show "\<exists>p. expoPlist st = Some p \<and> p ''EXUpdatesRuntimeVersion'' = Some (PString s)"
    by (auto simp: isUpdatesConfiguredIOS_def split: option.splits sum.splits if_splits)
qed

theorem ios_keys_swapped_but_consistent_witness:
  "(''1.0.0'' \<noteq> [] \<and> fst (configureUpdatesIOS (RuntimeOptions ''1.0.0'' exampleUrl) bareProject) = None) \<and>
   ((\<exists>p. expoPlist iosRuntimeProject = Some p \<and> p ''EXUpdatesSDKVersion'' = Some (PString ''1.0.0'')) \<and>
    isUpdatesConfiguredIOS (RuntimeOptions ''1.0.0'' exampleUrl) iosRuntimeProject = Inr True) \<and>
   fst (configureUpdatesIOS (SdkOptions ''39.0.0'' exampleUrl) bareProject) = None \<and>
   ((\<exists>p. expoPlist iosSdkProject = Some p \<and> p ''EXUpdatesRuntimeVersion'' = Some (PString ''39.0.0'')) \<and>
    isUpdatesConfiguredIOS (SdkOptions ''39.0.0'' exampleUrl) iosSdkProject = Inr True)"
proof -
  have a1: "''1.0.0'' \<noteq> []" by simp
  have a2: "configureUpdatesIOS (RuntimeOptions ''1.0.0'' exampleUrl) bareProject =
              (None, iosRuntimeProject,
               snd (snd (configureUpdatesIOS (RuntimeOptions ''1.0.0'' exampleUrl) bareProject)))"
    using collapse3[OF bareProject_ios_succeeds] by (simp add: iosRuntimeProject_def)
  have b2: "configureUpdatesIOS (SdkOptions ''39.0.0'' exampleUrl) bareProject =
              (None, iosSdkProject,
               snd (snd (configureUpdatesIOS (SdkOptions ''39.0.0'' exampleUrl) bareProject)))"
    using collapse3[OF bareProject_ios_succeeds] by (simp add: iosSdkProject_def)
  note t1 = ios_keys_swapped_but_consistent[where r = "''1.0.0''" and u = exampleUrl
      and st = bareProject and st' = iosRuntimeProject]
  note t2 = ios_keys_swapped_but_consistent[where s = "''39.0.0''" and u = exampleUrl
      and st = bareProject and st' = iosSdkProject]
  have c1: "(\<exists>p. expoPlist iosRuntimeProject = Some p \<and> p ''EXUpdatesSDKVersion'' = Some (PString ''1.0.0'')) \<and>
    isUpdatesConfiguredIOS (RuntimeOptions ''1.0.0'' exampleUrl) iosRuntimeProject = Inr True"
    using t1 a1 a2 by blast
  have c2: "(\<exists>p. expoPlist iosSdkProject = Some p \<and> p ''EXUpdatesRuntimeVersion'' = Some (PString ''39.0.0'')) \<and>
    isUpdatesConfiguredIOS (SdkOptions ''39.0.0'' exampleUrl) iosSdkProject = Inr True"
    using t2 b2 by blast
  show ?thesis using a1 bareProject_ios_succeeds c1 c2 by blast
qed

end
